theory Spec2Isabelle
  imports Main
begin

section \<open>The OAuth 2.0 authorization-server core of gogin\<close>

text \<open>
  A shallow embedding of \<^verbatim>\<open>internal/modules/oauth2/service.go\<close>, of the token
  dispatch in \<^verbatim>\<open>internal/modules/oauth2/handlers.go\<close>, of
  \<^verbatim>\<open>internal/utils/jwt.go\<close>, of the revocation helpers in
  \<^verbatim>\<open>internal/modules/redishelper/redis_helper.go\<close> and of the models and tables
  they use. The relational store and the cache are explicit states that every
  operation takes and returns; every error return of the source is a value.
\<close>

subsection \<open>Strings\<close>

text \<open>
  Go strings are byte sequences: \<^typ>\<open>string\<close>. \<^verbatim>\<open>strings.Contains(s, substr)\<close>
  reports whether \<^verbatim>\<open>substr\<close> occurs in \<^verbatim>\<open>s\<close> as a contiguous block.
\<close>

fun HasPrefix :: "string \<Rightarrow> string \<Rightarrow> bool" where
  "HasPrefix s [] = True"
| "HasPrefix [] (p # ps) = False"
| "HasPrefix (c # cs) (p # ps) = (c = p \<and> HasPrefix cs ps)"

fun Contains :: "string \<Rightarrow> string \<Rightarrow> bool" where
  "Contains [] substr = (substr = [])"
| "Contains (c # cs) substr = (HasPrefix (c # cs) substr \<or> Contains cs substr)"

text \<open>
  \<^verbatim>\<open>strings.Split(s, " ")\<close> cuts at every space and keeps empty pieces; the
  result is never empty (\<^verbatim>\<open>Split("", " ")\<close> is \<^verbatim>\<open>[""]\<close>).
  \<^verbatim>\<open>strings.Join(elems, " ")\<close> is its inverse on pieces without a space.
\<close>

fun Split :: "string \<Rightarrow> string list" where
  "Split [] = [[]]"
| "Split (c # cs) =
     (if c = CHR '' '' then [] # Split cs
      else (case Split cs of [] \<Rightarrow> [[c]] | w # ws \<Rightarrow> (c # w) # ws))"

fun Join :: "string list \<Rightarrow> string" where
  "Join [] = []"
| "Join [x] = x"
| "Join (x # y # ys) = x @ '' '' @ Join (y # ys)"

subsection \<open>Time\<close>

text \<open>
  An instant (\<^verbatim>\<open>time.Time\<close>) is the number of nanoseconds since the Unix epoch, a
  \<^verbatim>\<open>time.Duration\<close> a number of nanoseconds. One request reads the clock as one
  instant \<open>now\<close>, passed to the operation that serves it.
\<close>

type_synonym time = int
type_synonym duration = int

definition Second :: duration where
  "Second = 1000000000"

definition Minute :: duration where
  "Minute = 60 * Second"

definition Unix :: "time \<Rightarrow> int" where
  "Unix t = t div Second"

text \<open>
  \<^verbatim>\<open>Duration.Seconds()\<close> converted with \<^verbatim>\<open>int(...)\<close>: the whole seconds, rounded
  towards zero.
\<close>

definition Seconds_int :: "duration \<Rightarrow> int" where
  "Seconds_int d = (if 0 \<le> d then d div Second else - ((- d) div Second))"

subsection \<open>Errors\<close>

datatype db_error =
    ErrNoRows
  | ErrConnection
  | ErrConstraint

datatype jwt_error =
    ErrTokenMalformed
  | ErrTokenUnverifiable
  | ErrTokenSignatureInvalid
  | ErrTokenInvalidClaims

text \<open>One constructor for each error the source builds, named after its message.\<close>

datatype error =
    InvalidClient
  | ClientIsInactive
  | InvalidRedirectURI
  | FailedToCreateAuthorizationCode db_error
  | InvalidAuthorizationCode
  | AuthorizationCodeExpired
  | ClientMismatch
  | RedirectURIMismatch
  | InvalidCodeVerifier
  | InvalidClientSecret
  | GrantTypeNotAllowed
  | InvalidRefreshToken
  | RefreshTokenRevoked
  | InvalidToken
  | FailedToParseToken jwt_error
  | TokenHasExpired
  | UnexpectedSigningMethod
  | ValidationError
  | UnsupportedGrantType
  | StoreError db_error
  | RedisError
  | NilPointerPanic

subsection \<open>Models and tables\<close>

text \<open>
  The structs of the \<^verbatim>\<open>models\<close> package, one record each. A \<^verbatim>\<open>sql.NullString\<close>
  is an optional string: \<open>None\<close> is \<^verbatim>\<open>Valid = false\<close>, whose \<^verbatim>\<open>String\<close> is
  empty. The row timestamps \<^verbatim>\<open>created_at\<close> and \<^verbatim>\<open>updated_at\<close> are written by
  the store and never read by the flows; they are left out.
\<close>

type_synonym NullString = "string option"

definition NullString_String :: "NullString \<Rightarrow> string" where
  "NullString_String n = (case n of None \<Rightarrow> [] | Some s \<Rightarrow> s)"

record OAuthClient =
  cl_ID :: string
  cl_ClientID :: string
  cl_ClientSecret :: string
  cl_Name :: string
  cl_Description :: NullString
  cl_RedirectURIs :: string
  cl_Scopes :: string
  cl_GrantTypes :: string
  cl_IsPublic :: bool
  cl_IsActive :: bool
  cl_CreatedBy :: string
  cl_DeletedAt :: "time option"

record OAuthAuthorizationCode =
  ac_ID :: string
  ac_Code :: string
  ac_ClientID :: string
  ac_UserID :: string
  ac_RedirectURI :: string
  ac_Scopes :: string
  ac_CodeChallenge :: NullString
  ac_CodeChallengeMethod :: NullString
  ac_ExpiresAt :: time
  ac_IsUsed :: bool

definition IsExpired :: "time \<Rightarrow> OAuthAuthorizationCode \<Rightarrow> bool" where
  "IsExpired now c = (ac_ExpiresAt c < now)"

definition IsValid :: "time \<Rightarrow> OAuthAuthorizationCode \<Rightarrow> bool" where
  "IsValid now c = (\<not> ac_IsUsed c \<and> \<not> IsExpired now c)"

subsection \<open>Signed tokens\<close>

text \<open>
  The claim set of \<^verbatim>\<open>utils.JWTClaims\<close> with the registered claims the code sets.
  A date claim is optional (a nil \<^verbatim>\<open>*jwt.NumericDate\<close> is \<open>None\<close>).
\<close>

record JWTClaims =
  jc_UserID :: string
  jc_ClientID :: string
  jc_Role :: string
  jc_Scopes :: "string list"
  jc_TokenID :: string
  jc_Issuer :: string
  jc_Subject :: string
  jc_ExpiresAt :: "time option"
  jc_IssuedAt :: "time option"
  jc_NotBefore :: "time option"
  jc_ID :: string

text \<open>
  The signing methods that the JWT library registers, grouped by their Go type as the
  type assertion of \<^verbatim>\<open>ValidateToken\<close> sees them: \<^verbatim>\<open>HS256\<close>, \<^verbatim>\<open>HS384\<close> and
  \<^verbatim>\<open>HS512\<close> are the three values of \<^verbatim>\<open>*jwt.SigningMethodHMAC\<close>.
\<close>

datatype hash_alg = SHA256 | SHA384 | SHA512

datatype SigningMethod =
    SigningMethodHMAC hash_alg
  | SigningMethodRSA hash_alg
  | SigningMethodRSAPSS hash_alg
  | SigningMethodECDSA hash_alg
  | SigningMethodEd25519
  | SigningMethodNone

text \<open>
  Token strings are symbolic. A string either does not decode to a header and a claim
  set (\<open>NotJWT\<close>), or it is a compact token \<open>JWS alg claims k\<close>: its header declares
  the method \<open>alg\<close> (\<open>None\<close> when the name is not a registered method), it carries
  \<open>claims\<close>, and its signature is the one that the declared method computes under the
  key \<open>k\<close>. A forged signature is a signature under another key.
\<close>

datatype token_string =
    NotJWT string
  | JWS "SigningMethod option" JWTClaims string

record Token =
  tk_Method :: SigningMethod
  tk_Claims :: JWTClaims
  tk_Valid :: bool

text \<open>
  The JWT library (\<^verbatim>\<open>github.com/golang-jwt/jwt/v5\<close>) is a dependency, not code of the
  repository. \<open>Verify\<close> is its signature check for a key given as bytes, which only
  the HMAC family accepts. \<open>Validator_Validate\<close> is its default check of the registered
  claims: an expiry must lie after \<open>now\<close>, a not-before must not. \<open>NewNumericDate\<close>
  cuts an instant to whole seconds.
\<close>

definition Verify :: "SigningMethod \<Rightarrow> string \<Rightarrow> string \<Rightarrow> bool" where
  "Verify m key k = (case m of SigningMethodHMAC h \<Rightarrow> key = k | _ \<Rightarrow> False)"

definition Validator_Validate :: "time \<Rightarrow> JWTClaims \<Rightarrow> bool" where
  "Validator_Validate now claims =
     ((case jc_ExpiresAt claims of None \<Rightarrow> True | Some e \<Rightarrow> now < e) \<and>
      (case jc_NotBefore claims of None \<Rightarrow> True | Some n \<Rightarrow> n \<le> now))"

definition NewNumericDate :: "time \<Rightarrow> time option" where
  "NewNumericDate t = Some (t - t mod Second)"

text \<open>
  \<^verbatim>\<open>jwt.ParseWithClaims\<close>: decode, look the declared method up, ask \<open>keyFunc\<close> for
  the key, verify the signature, validate the registered claims with \<open>validate\<close>, and
  only then mark the token valid. The claim validation is a parameter, so that results
  can be stated for whatever the library decides there.
\<close>

definition ParseWithClaims ::
  "(time \<Rightarrow> JWTClaims \<Rightarrow> bool) \<Rightarrow> time \<Rightarrow> token_string \<Rightarrow> (Token \<Rightarrow> error + string)
     \<Rightarrow> jwt_error + Token" where
  "ParseWithClaims validate now tokenString keyFunc =
     (case tokenString of
        NotJWT s \<Rightarrow> Inl ErrTokenMalformed
      | JWS alg claims k \<Rightarrow>
          (case alg of
             None \<Rightarrow> Inl ErrTokenUnverifiable
           | Some m \<Rightarrow>
               (case keyFunc \<lparr>tk_Method = m, tk_Claims = claims, tk_Valid = False\<rparr> of
                  Inl e \<Rightarrow> Inl ErrTokenUnverifiable
                | Inr key \<Rightarrow>
                    if \<not> Verify m key k then Inl ErrTokenSignatureInvalid
                    else if \<not> validate now claims then Inl ErrTokenInvalidClaims
                    else Inr \<lparr>tk_Method = m, tk_Claims = claims, tk_Valid = True\<rparr>)))"

subsection \<open>\<^verbatim>\<open>internal/utils/jwt.go\<close>\<close>

record JWTUtil =
  secret :: string
  issuer :: string

text \<open>
  The three generators sign with \<^verbatim>\<open>HS256\<close> under the configured secret. Signing
  with a byte key cannot fail, so their error result is always nil and is left out;
  \<open>tokenID\<close> is the value that \<^verbatim>\<open>uuid.New()\<close> returned.
\<close>

definition GenerateAccessToken ::
  "JWTUtil \<Rightarrow> time \<Rightarrow> string \<Rightarrow> string \<Rightarrow> string \<Rightarrow> string \<Rightarrow> string list \<Rightarrow> duration
     \<Rightarrow> token_string \<times> string" where
  "GenerateAccessToken j now tokenID userID clientID role scopes expiry =
     (JWS (Some (SigningMethodHMAC SHA256))
        \<lparr>jc_UserID = userID, jc_ClientID = clientID, jc_Role = role, jc_Scopes = scopes,
         jc_TokenID = tokenID, jc_Issuer = issuer j, jc_Subject = userID,
         jc_ExpiresAt = NewNumericDate (now + expiry), jc_IssuedAt = NewNumericDate now,
         jc_NotBefore = NewNumericDate now, jc_ID = tokenID\<rparr>
        (secret j),
      tokenID)"

definition GenerateRefreshToken ::
  "JWTUtil \<Rightarrow> time \<Rightarrow> string \<Rightarrow> string \<Rightarrow> string \<Rightarrow> duration \<Rightarrow> token_string \<times> string" where
  "GenerateRefreshToken j now tokenID userID clientID expiry =
     (JWS (Some (SigningMethodHMAC SHA256))
        \<lparr>jc_UserID = userID, jc_ClientID = clientID, jc_Role = [], jc_Scopes = [],
         jc_TokenID = tokenID, jc_Issuer = issuer j, jc_Subject = userID,
         jc_ExpiresAt = NewNumericDate (now + expiry), jc_IssuedAt = NewNumericDate now,
         jc_NotBefore = NewNumericDate now, jc_ID = tokenID\<rparr>
        (secret j),
      tokenID)"

definition GenerateClientToken ::
  "JWTUtil \<Rightarrow> time \<Rightarrow> string \<Rightarrow> string \<Rightarrow> string list \<Rightarrow> duration \<Rightarrow> token_string \<times> string" where
  "GenerateClientToken j now tokenID clientID scopes expiry =
     (JWS (Some (SigningMethodHMAC SHA256))
        \<lparr>jc_UserID = [], jc_ClientID = clientID, jc_Role = [], jc_Scopes = scopes,
         jc_TokenID = tokenID, jc_Issuer = issuer j, jc_Subject = clientID,
         jc_ExpiresAt = NewNumericDate (now + expiry), jc_IssuedAt = NewNumericDate now,
         jc_NotBefore = NewNumericDate now, jc_ID = tokenID\<rparr>
        (secret j),
      tokenID)"

text \<open>The key function of \<^verbatim>\<open>ValidateToken\<close>: any HMAC method gets the secret.\<close>

definition keyFunc :: "JWTUtil \<Rightarrow> Token \<Rightarrow> error + string" where
  "keyFunc j token =
     (case tk_Method token of
        SigningMethodHMAC h \<Rightarrow> Inr (secret j)
      | _ \<Rightarrow> Inl UnexpectedSigningMethod)"

definition ValidateToken ::
  "(time \<Rightarrow> JWTClaims \<Rightarrow> bool) \<Rightarrow> JWTUtil \<Rightarrow> time \<Rightarrow> token_string \<Rightarrow> error + JWTClaims" where
  "ValidateToken validate j now tokenString =
     (case ParseWithClaims validate now tokenString (keyFunc j) of
        Inl err \<Rightarrow> Inl (FailedToParseToken err)
      | Inr token \<Rightarrow>
          if tk_Valid token then
            (let claims = tk_Claims token in
             if jc_ExpiresAt claims \<noteq> None \<and> the (jc_ExpiresAt claims) < now
             then Inl TokenHasExpired
             else Inr claims)
          else Inl InvalidToken)"

subsection \<open>The cache\<close>

text \<open>
  The cache maps a key to its value and the instant at which the entry expires. A
  command fails when the cache cannot be reached (or does not answer within the
  timeout of the call). \<^verbatim>\<open>RedisClient.Exists\<close> returns \<^verbatim>\<open>(false, err)\<close> then.
\<close>

record Redis =
  redis_reachable :: bool
  redis_entries :: "string \<rightharpoonup> string \<times> time"

definition RedisClient_Set ::
  "time \<Rightarrow> string \<Rightarrow> string \<Rightarrow> duration \<Rightarrow> Redis \<Rightarrow> error option \<times> Redis" where
  "RedisClient_Set now key val expiration r =
     (if redis_reachable r
      then (None, r\<lparr>redis_entries := (redis_entries r)(key \<mapsto> (val, now + expiration))\<rparr>)
      else (Some RedisError, r))"

definition RedisClient_Exists :: "time \<Rightarrow> string \<Rightarrow> Redis \<Rightarrow> bool \<times> error option" where
  "RedisClient_Exists now key r =
     (if redis_reachable r
      then ((case redis_entries r key of None \<Rightarrow> False | Some (val, deadline) \<Rightarrow> now < deadline),
            None)
      else (False, Some RedisError))"

subsection \<open>\<^verbatim>\<open>internal/modules/redishelper/redis_helper.go\<close>\<close>

definition RedisHelper_RevokeToken ::
  "time \<Rightarrow> string \<Rightarrow> time \<Rightarrow> Redis \<Rightarrow> error option \<times> Redis" where
  "RedisHelper_RevokeToken now tokenID expiresAt r =
     (let key = ''revoked_token:'' @ tokenID;
          ttl = expiresAt - now
      in if ttl \<le> 0 then (None, r)
         else RedisClient_Set now key ''revoked'' ttl r)"

definition IsTokenRevoked :: "time \<Rightarrow> string \<Rightarrow> Redis \<Rightarrow> bool \<times> error option" where
  "IsTokenRevoked now tokenID r = RedisClient_Exists now (''revoked_token:'' @ tokenID) r"

subsection \<open>The relational store\<close>

text \<open>
  The three tables of the migration, with the identifiers of the \<^verbatim>\<open>users\<close> table that
  two of them reference. A statement fails when the store cannot be reached, when a
  query has no row, or when an insert breaks a key: \<^verbatim>\<open>id\<close> is the primary key of each
  table, \<^verbatim>\<open>code\<close> and \<^verbatim>\<open>access_token\<close> are unique, \<^verbatim>\<open>client_id\<close> references
  \<^verbatim>\<open>oauth_clients(client_id)\<close> and \<^verbatim>\<open>user_id\<close> references \<^verbatim>\<open>users(id)\<close>.
\<close>

record OAuthToken =
  ot_ID :: string
  ot_AccessToken :: token_string
  ot_RefreshToken :: "token_string option"
  ot_TokenType :: string
  ot_ExpiresAt :: time
  ot_Scopes :: string
  ot_ClientID :: string
  ot_UserID :: NullString
  ot_IsRevoked :: bool

record Database =
  db_reachable :: bool
  users :: "string list"
  oauth_clients :: "OAuthClient list"
  oauth_authorization_codes :: "OAuthAuthorizationCode list"
  oauth_tokens :: "OAuthToken list"

text \<open>
  \<^verbatim>\<open>SELECT ... FROM oauth_authorization_codes WHERE code = $1 AND is_used = FALSE\<close>
\<close>

definition select_unused_code :: "Database \<Rightarrow> string \<Rightarrow> db_error + OAuthAuthorizationCode" where
  "select_unused_code db code =
     (if \<not> db_reachable db then Inl ErrConnection
      else (case find (\<lambda>r. ac_Code r = code \<and> \<not> ac_IsUsed r) (oauth_authorization_codes db) of
              None \<Rightarrow> Inl ErrNoRows
            | Some r \<Rightarrow> Inr r))"

text \<open>\<^verbatim>\<open>UPDATE oauth_authorization_codes SET is_used = TRUE WHERE id = $1\<close>\<close>

definition update_code_used :: "Database \<Rightarrow> string \<Rightarrow> db_error option \<times> Database" where
  "update_code_used db ident =
     (if \<not> db_reachable db then (Some ErrConnection, db)
      else (None,
            db\<lparr>oauth_authorization_codes :=
                 map (\<lambda>r. if ac_ID r = ident then r\<lparr>ac_IsUsed := True\<rparr> else r)
                   (oauth_authorization_codes db)\<rparr>))"

text \<open>\<^verbatim>\<open>INSERT INTO oauth_authorization_codes ...\<close>\<close>

definition insert_authorization_code ::
  "Database \<Rightarrow> OAuthAuthorizationCode \<Rightarrow> db_error option \<times> Database" where
  "insert_authorization_code db row =
     (if \<not> db_reachable db then (Some ErrConnection, db)
      else if ac_ID row \<in> set (map ac_ID (oauth_authorization_codes db))
            \<or> ac_Code row \<in> set (map ac_Code (oauth_authorization_codes db))
            \<or> ac_ClientID row \<notin> set (map cl_ClientID (oauth_clients db))
            \<or> ac_UserID row \<notin> set (users db)
      then (Some ErrConstraint, db)
      else (None, db\<lparr>oauth_authorization_codes := oauth_authorization_codes db @ [row]\<rparr>))"

text \<open>\<^verbatim>\<open>INSERT INTO oauth_tokens ...\<close>\<close>

definition insert_token :: "Database \<Rightarrow> OAuthToken \<Rightarrow> db_error option \<times> Database" where
  "insert_token db row =
     (if \<not> db_reachable db then (Some ErrConnection, db)
      else if ot_ID row \<in> set (map ot_ID (oauth_tokens db))
            \<or> ot_AccessToken row \<in> set (map ot_AccessToken (oauth_tokens db))
            \<or> ot_ClientID row \<notin> set (map cl_ClientID (oauth_clients db))
            \<or> (case ot_UserID row of None \<Rightarrow> False | Some u \<Rightarrow> u \<notin> set (users db))
      then (Some ErrConstraint, db)
      else (None, db\<lparr>oauth_tokens := oauth_tokens db @ [row]\<rparr>))"

subsection \<open>\<^verbatim>\<open>internal/modules/oauth2/dto.go\<close>\<close>

record AuthorizeRequest =
  ar_ClientID :: string
  ar_RedirectURI :: string
  ar_ResponseType :: string
  ar_Scope :: string
  ar_State :: string
  ar_CodeChallenge :: string
  ar_CodeChallengeMethod :: string

record TokenRequest =
  rq_GrantType :: string
  rq_Code :: string
  rq_RedirectURI :: string
  rq_ClientID :: string
  rq_ClientSecret :: string
  rq_RefreshToken :: token_string
  rq_CodeVerifier :: string
  rq_Scope :: string

text \<open>An empty \<^verbatim>\<open>RefreshToken\<close> is the empty string \<open>NotJWT []\<close>.\<close>

record TokenResponse =
  rs_AccessToken :: token_string
  rs_TokenType :: string
  rs_ExpiresIn :: int
  rs_RefreshToken :: token_string
  rs_Scope :: string

record AuthorizeResponse =
  az_Code :: string
  az_State :: string

record IntrospectResponse =
  ir_Active :: bool
  ir_Scope :: string
  ir_ClientID :: string
  ir_UserID :: string
  ir_TokenType :: string
  ir_ExpiresAt :: int
  ir_IssuedAt :: int

subsection \<open>\<^verbatim>\<open>internal/modules/oauth2/service.go\<close>\<close>

text \<open>
  The service holds the token utility and the configured lifetimes; its store and its
  cache are the states passed to each operation. What the operations take from
  libraries is a parameter: the claim validation of the JWT library, and
  \<^verbatim>\<open>sha256.Sum256\<close> and \<^verbatim>\<open>base64.RawURLEncoding.EncodeToString\<close> for PKCE. The
  argument \<open>uuid\<close> gives the values of the successive \<^verbatim>\<open>uuid.New()\<close> calls of one
  request, \<open>now\<close> its clock reading.
\<close>

record Config =
  AccessTokenExpiry :: duration
  RefreshTokenExpiry :: duration

record OAuth2Service =
  jwtUtil :: JWTUtil
  config :: Config

record Libraries =
  jwt_validate :: "time \<Rightarrow> JWTClaims \<Rightarrow> bool"
  sha256_Sum256 :: "string \<Rightarrow> string"
  base64_RawURLEncoding :: "string \<Rightarrow> string"

definition GetClientByClientID :: "Database \<Rightarrow> string \<Rightarrow> db_error + OAuthClient" where
  "GetClientByClientID db clientID =
     (if \<not> db_reachable db then Inl ErrConnection
      else (case find (\<lambda>c. cl_ClientID c = clientID \<and> cl_DeletedAt c = None) (oauth_clients db) of
              None \<Rightarrow> Inl ErrNoRows
            | Some c \<Rightarrow> Inr c))"

definition validateRedirectURI :: "OAuthClient \<Rightarrow> string \<Rightarrow> bool" where
  "validateRedirectURI client redirectURI = Contains (cl_RedirectURIs client) redirectURI"

definition verifyPKCE :: "Libraries \<Rightarrow> string \<Rightarrow> string \<Rightarrow> string \<Rightarrow> bool" where
  "verifyPKCE L challenge method verifier =
     (if method = ''S256''
      then (let hash = sha256_Sum256 L verifier;
                computed = base64_RawURLEncoding L hash
            in computed = challenge)
      else verifier = challenge)"

definition CreateAuthorizationCode ::
  "(nat \<Rightarrow> string) \<Rightarrow> time \<Rightarrow> string \<Rightarrow> AuthorizeRequest \<Rightarrow> Database
     \<Rightarrow> (error + OAuthAuthorizationCode) \<times> Database" where
  "CreateAuthorizationCode uuid now userID req db =
     (case GetClientByClientID db (ar_ClientID req) of
        Inl err \<Rightarrow> (Inl InvalidClient, db)
      | Inr client \<Rightarrow>
          if \<not> cl_IsActive client then (Inl ClientIsInactive, db)
          else if \<not> validateRedirectURI client (ar_RedirectURI req)
          then (Inl InvalidRedirectURI, db)
          else
            (let code = uuid 0;
                 expiresAt = now + 10 * Minute;
                 authCode = \<lparr>ac_ID = uuid 1, ac_Code = code, ac_ClientID = ar_ClientID req,
                             ac_UserID = userID, ac_RedirectURI = ar_RedirectURI req,
                             ac_Scopes = ar_Scope req,
                             ac_CodeChallenge =
                               (if ar_CodeChallenge req \<noteq> [] then Some (ar_CodeChallenge req)
                                else None),
                             ac_CodeChallengeMethod =
                               (if ar_CodeChallenge req \<noteq> []
                                then Some (ar_CodeChallengeMethod req) else None),
                             ac_ExpiresAt = expiresAt, ac_IsUsed = False\<rparr>
             in (case insert_authorization_code db authCode of
                   (Some err, db') \<Rightarrow> (Inl (FailedToCreateAuthorizationCode err), db')
                 | (None, db') \<Rightarrow> (Inr authCode, db'))))"

definition generateTokens ::
  "OAuth2Service \<Rightarrow> (nat \<Rightarrow> string) \<Rightarrow> time \<Rightarrow> string \<Rightarrow> string \<Rightarrow> string list \<Rightarrow> Database
     \<Rightarrow> (error + TokenResponse) \<times> Database" where
  "generateTokens s uuid now userID clientID scopes db =
     (let accessToken =
            fst (GenerateAccessToken (jwtUtil s) now (uuid 0) userID clientID [] scopes
                   (AccessTokenExpiry (config s)));
          refreshToken =
            fst (GenerateRefreshToken (jwtUtil s) now (uuid 1) userID clientID
                   (RefreshTokenExpiry (config s)));
          expiresAt = now + AccessTokenExpiry (config s)
      in (case insert_token db
                 \<lparr>ot_ID = uuid 2, ot_AccessToken = accessToken,
                  ot_RefreshToken = Some refreshToken, ot_TokenType = ''Bearer'',
                  ot_ExpiresAt = expiresAt, ot_Scopes = Join scopes, ot_ClientID = clientID,
                  ot_UserID = Some userID, ot_IsRevoked = False\<rparr> of
            (Some err, db') \<Rightarrow> (Inl (StoreError err), db')
          | (None, db') \<Rightarrow>
              (Inr \<lparr>rs_AccessToken = accessToken, rs_TokenType = ''Bearer'',
                    rs_ExpiresIn = Seconds_int (AccessTokenExpiry (config s)),
                    rs_RefreshToken = refreshToken, rs_Scope = Join scopes\<rparr>,
               db')))"

text \<open>
  \<^verbatim>\<open>ExchangeCodeForToken\<close> talks to the store four times. Its first part is the
  \<^verbatim>\<open>SELECT\<close> of the unused code and the checks on the row it fetched (lines 104 to
  150); its second part starts with the \<^verbatim>\<open>UPDATE\<close> that marks the row used and
  works on the row fetched before (lines 152 to 173). The function is the first part
  followed by the second.
\<close>

definition ExchangeCodeForToken_fetch ::
  "Libraries \<Rightarrow> time \<Rightarrow> TokenRequest \<Rightarrow> Database \<Rightarrow> error + OAuthAuthorizationCode" where
  "ExchangeCodeForToken_fetch L now req db =
     (case select_unused_code db (rq_Code req) of
        Inl err \<Rightarrow> Inl InvalidAuthorizationCode
      | Inr authCode \<Rightarrow>
          if IsExpired now authCode then Inl AuthorizationCodeExpired
          else if ac_ClientID authCode \<noteq> rq_ClientID req then Inl ClientMismatch
          else if ac_RedirectURI authCode \<noteq> rq_RedirectURI req then Inl RedirectURIMismatch
          else if ac_CodeChallenge authCode \<noteq> None
                \<and> \<not> verifyPKCE L (NullString_String (ac_CodeChallenge authCode))
                      (NullString_String (ac_CodeChallengeMethod authCode))
                      (rq_CodeVerifier req)
          then Inl InvalidCodeVerifier
          else Inr authCode)"

definition ExchangeCodeForToken_redeem ::
  "OAuth2Service \<Rightarrow> (nat \<Rightarrow> string) \<Rightarrow> time \<Rightarrow> TokenRequest \<Rightarrow> OAuthAuthorizationCode
     \<Rightarrow> Database \<Rightarrow> (error + TokenResponse) \<times> Database" where
  "ExchangeCodeForToken_redeem s uuid now req authCode db =
     (case update_code_used db (ac_ID authCode) of
        (Some err, db1) \<Rightarrow> (Inl (StoreError err), db1)
      | (None, db1) \<Rightarrow>
          (case GetClientByClientID db1 (rq_ClientID req) of
             Inl err \<Rightarrow> (Inl (StoreError err), db1)
           | Inr client \<Rightarrow>
               if \<not> cl_IsPublic client \<and> rq_ClientSecret req \<noteq> cl_ClientSecret client
               then (Inl InvalidClientSecret, db1)
               else generateTokens s uuid now (ac_UserID authCode) (rq_ClientID req)
                      (Split (ac_Scopes authCode)) db1))"

definition ExchangeCodeForToken ::
  "Libraries \<Rightarrow> OAuth2Service \<Rightarrow> (nat \<Rightarrow> string) \<Rightarrow> time \<Rightarrow> TokenRequest \<Rightarrow> Database
     \<Rightarrow> (error + TokenResponse) \<times> Database" where
  "ExchangeCodeForToken L s uuid now req db =
     (case ExchangeCodeForToken_fetch L now req db of
        Inl err \<Rightarrow> (Inl err, db)
      | Inr authCode \<Rightarrow> ExchangeCodeForToken_redeem s uuid now req authCode db)"

definition ClientCredentialsGrant ::
  "OAuth2Service \<Rightarrow> (nat \<Rightarrow> string) \<Rightarrow> time \<Rightarrow> TokenRequest \<Rightarrow> Database
     \<Rightarrow> (error + TokenResponse) \<times> Database" where
  "ClientCredentialsGrant s uuid now req db =
     (case GetClientByClientID db (rq_ClientID req) of
        Inl err \<Rightarrow> (Inl InvalidClient, db)
      | Inr client \<Rightarrow>
          if \<not> cl_IsActive client then (Inl ClientIsInactive, db)
          else if rq_ClientSecret req \<noteq> cl_ClientSecret client
          then (Inl InvalidClientSecret, db)
          else if \<not> Contains (cl_GrantTypes client) ''client_credentials''
          then (Inl GrantTypeNotAllowed, db)
          else
            (let scope = (if rq_Scope req = [] then cl_Scopes client else rq_Scope req);
                 scopes = Split scope;
                 accessToken =
                   fst (GenerateClientToken (jwtUtil s) now (uuid 0) (rq_ClientID req) scopes
                          (AccessTokenExpiry (config s)));
                 expiresAt = now + AccessTokenExpiry (config s)
             in (case insert_token db
                        \<lparr>ot_ID = uuid 1, ot_AccessToken = accessToken, ot_RefreshToken = None,
                         ot_TokenType = ''Bearer'', ot_ExpiresAt = expiresAt,
                         ot_Scopes = scope, ot_ClientID = rq_ClientID req, ot_UserID = None,
                         ot_IsRevoked = False\<rparr> of
                   (Some err, db') \<Rightarrow> (Inl (StoreError err), db')
                 | (None, db') \<Rightarrow>
                     (Inr \<lparr>rs_AccessToken = accessToken, rs_TokenType = ''Bearer'',
                           rs_ExpiresIn = Seconds_int (AccessTokenExpiry (config s)),
                           rs_RefreshToken = NotJWT [], rs_Scope = scope\<rparr>,
                      db'))))"

definition RefreshTokenGrant ::
  "Libraries \<Rightarrow> OAuth2Service \<Rightarrow> (nat \<Rightarrow> string) \<Rightarrow> time \<Rightarrow> TokenRequest \<Rightarrow> Redis
     \<Rightarrow> Database \<Rightarrow> (error + TokenResponse) \<times> Database" where
  "RefreshTokenGrant L s uuid now req r db =
     (case ValidateToken (jwt_validate L) (jwtUtil s) now (rq_RefreshToken req) of
        Inl err \<Rightarrow> (Inl InvalidRefreshToken, db)
      | Inr claims \<Rightarrow>
          (let revoked = fst (IsTokenRevoked now (jc_TokenID claims) r)
           in if revoked then (Inl RefreshTokenRevoked, db)
              else if jc_ClientID claims \<noteq> rq_ClientID req then (Inl ClientMismatch, db)
              else generateTokens s uuid now (jc_UserID claims) (rq_ClientID req)
                     (jc_Scopes claims) db))"

text \<open>
  \<^verbatim>\<open>claims.ExpiresAt.Time\<close> and \<^verbatim>\<open>claims.ExpiresAt.Unix()\<close> dereference the date
  claim; on a claim set without it the request panics.
\<close>

definition RevokeToken ::
  "Libraries \<Rightarrow> OAuth2Service \<Rightarrow> time \<Rightarrow> token_string \<Rightarrow> Redis \<Rightarrow> error option \<times> Redis" where
  "RevokeToken L s now token r =
     (case ValidateToken (jwt_validate L) (jwtUtil s) now token of
        Inl err \<Rightarrow> (Some InvalidToken, r)
      | Inr claims \<Rightarrow>
          (case jc_ExpiresAt claims of
             None \<Rightarrow> (Some NilPointerPanic, r)
           | Some expiresAt \<Rightarrow> RedisHelper_RevokeToken now (jc_TokenID claims) expiresAt r))"

definition inactive :: IntrospectResponse where
  "inactive = \<lparr>ir_Active = False, ir_Scope = [], ir_ClientID = [], ir_UserID = [],
               ir_TokenType = [], ir_ExpiresAt = 0, ir_IssuedAt = 0\<rparr>"

definition IntrospectToken ::
  "Libraries \<Rightarrow> OAuth2Service \<Rightarrow> time \<Rightarrow> token_string \<Rightarrow> Redis \<Rightarrow> error + IntrospectResponse" where
  "IntrospectToken L s now token r =
     (case ValidateToken (jwt_validate L) (jwtUtil s) now token of
        Inl err \<Rightarrow> Inr inactive
      | Inr claims \<Rightarrow>
          (let revoked = fst (IsTokenRevoked now (jc_TokenID claims) r)
           in if revoked then Inr inactive
              else (case (jc_ExpiresAt claims, jc_IssuedAt claims) of
                      (Some expiresAt, Some issuedAt) \<Rightarrow>
                        Inr \<lparr>ir_Active = True, ir_Scope = Join (jc_Scopes claims),
                             ir_ClientID = jc_ClientID claims, ir_UserID = jc_UserID claims,
                             ir_TokenType = ''Bearer'', ir_ExpiresAt = Unix expiresAt,
                             ir_IssuedAt = Unix issuedAt\<rparr>
                    | _ \<Rightarrow> Inl NilPointerPanic)))"

subsection \<open>\<^verbatim>\<open>internal/modules/oauth2/handlers.go\<close>\<close>

text \<open>
  The handlers bind the request (the \<^verbatim>\<open>binding\<close> tags of the request structs) and
  call the service. \<open>authorize\<close>, \<open>revoke\<close> and \<open>introspect\<close> run behind the
  authentication middleware, which supplies \<open>userID\<close>.
\<close>

definition bind_AuthorizeRequest :: "AuthorizeRequest \<Rightarrow> bool" where
  "bind_AuthorizeRequest req =
     (ar_ClientID req \<noteq> [] \<and> ar_RedirectURI req \<noteq> [] \<and> ar_ResponseType req = ''code''
      \<and> (ar_CodeChallengeMethod req = [] \<or> ar_CodeChallengeMethod req = ''S256''
          \<or> ar_CodeChallengeMethod req = ''plain''))"

definition bind_TokenRequest :: "TokenRequest \<Rightarrow> bool" where
  "bind_TokenRequest req =
     ((rq_GrantType req = ''authorization_code'' \<or> rq_GrantType req = ''client_credentials''
       \<or> rq_GrantType req = ''refresh_token'')
      \<and> rq_ClientID req \<noteq> [])"

definition authorize ::
  "(nat \<Rightarrow> string) \<Rightarrow> time \<Rightarrow> string \<Rightarrow> AuthorizeRequest \<Rightarrow> Database
     \<Rightarrow> (error + AuthorizeResponse) \<times> Database" where
  "authorize uuid now userID req db =
     (if \<not> bind_AuthorizeRequest req then (Inl ValidationError, db)
      else (case CreateAuthorizationCode uuid now userID req db of
              (Inl err, db') \<Rightarrow> (Inl err, db')
            | (Inr authCode, db') \<Rightarrow>
                (Inr \<lparr>az_Code = ac_Code authCode, az_State = ar_State req\<rparr>, db')))"

definition token ::
  "Libraries \<Rightarrow> OAuth2Service \<Rightarrow> (nat \<Rightarrow> string) \<Rightarrow> time \<Rightarrow> TokenRequest \<Rightarrow> Redis
     \<Rightarrow> Database \<Rightarrow> (error + TokenResponse) \<times> Database" where
  "token L s uuid now req r db =
     (if \<not> bind_TokenRequest req then (Inl ValidationError, db)
      else if rq_GrantType req = ''authorization_code''
      then ExchangeCodeForToken L s uuid now req db
      else if rq_GrantType req = ''client_credentials''
      then ClientCredentialsGrant s uuid now req db
      else if rq_GrantType req = ''refresh_token''
      then RefreshTokenGrant L s uuid now req r db
      else (Inl UnsupportedGrantType, db))"

definition revoke ::
  "Libraries \<Rightarrow> OAuth2Service \<Rightarrow> time \<Rightarrow> token_string \<Rightarrow> Redis \<Rightarrow> error option \<times> Redis" where
  "revoke L s now tok r =
     (if tok = NotJWT [] then (Some ValidationError, r) else RevokeToken L s now tok r)"

definition introspect ::
  "Libraries \<Rightarrow> OAuth2Service \<Rightarrow> time \<Rightarrow> token_string \<Rightarrow> Redis \<Rightarrow> error + IntrospectResponse" where
  "introspect L s now tok r =
     (if tok = NotJWT [] then Inl ValidationError else IntrospectToken L s now tok r)"

subsection \<open>Sequences of requests\<close>

text \<open>
  The server state is the store and the cache. A request is one call of an endpoint,
  with the identifiers and the clock reading it draws. \<open>serve\<close> is the effect of
  one request on the state and \<open>run\<close> the effect of requests served one after
  another.
\<close>

datatype call =
    Authorize string AuthorizeRequest
  | TokenCall TokenRequest
  | Revoke token_string
  | Introspect token_string

type_synonym request = "(nat \<Rightarrow> string) \<times> time \<times> call"

fun serve :: "Libraries \<Rightarrow> OAuth2Service \<Rightarrow> request \<Rightarrow> Database \<times> Redis \<Rightarrow> Database \<times> Redis" where
  "serve L s (uuid, now, Authorize userID req) (db, r) = (snd (authorize uuid now userID req db), r)"
| "serve L s (uuid, now, TokenCall req) (db, r) = (snd (token L s uuid now req r db), r)"
| "serve L s (uuid, now, Revoke tok) (db, r) = (db, snd (revoke L s now tok r))"
| "serve L s (uuid, now, Introspect tok) (db, r) = (db, r)"

fun run :: "Libraries \<Rightarrow> OAuth2Service \<Rightarrow> request list \<Rightarrow> Database \<times> Redis \<Rightarrow> Database \<times> Redis" where
  "run L s [] st = st"
| "run L s (q # qs) st = run L s qs (serve L s q st)"

text \<open>
  Exchanges served one after another, each on the store that the one before left, with
  the result of each.
\<close>

fun exchanges ::
  "Libraries \<Rightarrow> OAuth2Service \<Rightarrow> ((nat \<Rightarrow> string) \<times> time \<times> TokenRequest) list \<Rightarrow> Database
     \<Rightarrow> (error + TokenResponse) list \<times> Database" where
  "exchanges L s [] db = ([], db)"
| "exchanges L s ((uuid, now, req) # qs) db =
     (let (res, db1) = ExchangeCodeForToken L s uuid now req db;
          (ress, db2) = exchanges L s qs db1
      in (res # ress, db2))"

subsection \<open>Exchanges in flight at the same time\<close>

text \<open>
  Requests run on independent threads and meet only in the store, one statement at a
  time. An exchange in flight has either not yet read the code (\<open>Start\<close>), or holds
  the row it fetched and has not yet written (\<open>Fetched\<close>), or has returned
  (\<open>Finished\<close>). \<open>advance\<close> lets one exchange take its next part; a schedule names,
  step by step, the exchange that moves.
\<close>

datatype exchange =
    Start TokenRequest
  | Fetched TokenRequest OAuthAuthorizationCode
  | Finished "error + TokenResponse"

definition advance ::
  "Libraries \<Rightarrow> OAuth2Service \<Rightarrow> (nat \<Rightarrow> string) \<Rightarrow> time \<Rightarrow> exchange \<Rightarrow> Database
     \<Rightarrow> exchange \<times> Database" where
  "advance L s uuid now e db =
     (case e of
        Start req \<Rightarrow>
          (case ExchangeCodeForToken_fetch L now req db of
             Inl err \<Rightarrow> (Finished (Inl err), db)
           | Inr authCode \<Rightarrow> (Fetched req authCode, db))
      | Fetched req authCode \<Rightarrow>
          (let (res, db') = ExchangeCodeForToken_redeem s uuid now req authCode db
           in (Finished res, db'))
      | Finished res \<Rightarrow> (Finished res, db))"

fun schedule ::
  "Libraries \<Rightarrow> OAuth2Service \<Rightarrow> (nat \<Rightarrow> nat \<Rightarrow> string) \<Rightarrow> time \<Rightarrow> nat list
     \<Rightarrow> exchange list \<times> Database \<Rightarrow> exchange list \<times> Database" where
  "schedule L s uuids now [] (es, db) = (es, db)"
| "schedule L s uuids now (i # is) (es, db) =
     (if i < length es
      then (let (e', db') = advance L s (uuids i) now (es ! i) db
            in schedule L s uuids now is (es[i := e'], db'))
      else schedule L s uuids now is (es, db))"

definition succeeded :: "exchange \<Rightarrow> bool" where
  "succeeded e = (case e of Finished (Inr resp) \<Rightarrow> True | _ \<Rightarrow> False)"

subsection \<open>A concrete server\<close>

text \<open>
  The values that the examples below run on. \<open>RawURLEncoding_EncodeToString\<close> is
  unpadded URL-safe base 64. \<open>Sum256_abc123\<close> is SHA-256 where the examples apply it,
  at the verifier \<^verbatim>\<open>abc123\<close>; \<open>L0\<close> takes the claim validation of the JWT library.
\<close>

definition encodeURL :: string where
  "encodeURL = ''ABCDEFGHIJKLMNOPQRSTUVWXYZabcdefghijklmnopqrstuvwxyz0123456789-_''"

fun EncodeToString_bytes :: "nat list \<Rightarrow> string" where
  "EncodeToString_bytes (a # b # c # rest) =
     [encodeURL ! (a div 4), encodeURL ! ((a mod 4) * 16 + b div 16),
      encodeURL ! ((b mod 16) * 4 + c div 64), encodeURL ! (c mod 64)]
     @ EncodeToString_bytes rest"
| "EncodeToString_bytes [a, b] =
     [encodeURL ! (a div 4), encodeURL ! ((a mod 4) * 16 + b div 16),
      encodeURL ! ((b mod 16) * 4)]"
| "EncodeToString_bytes [a] = [encodeURL ! (a div 4), encodeURL ! ((a mod 4) * 16)]"
| "EncodeToString_bytes [] = []"

definition RawURLEncoding_EncodeToString :: "string \<Rightarrow> string" where
  "RawURLEncoding_EncodeToString src = EncodeToString_bytes (map of_char src)"

definition Sum256_abc123 :: "string \<Rightarrow> string" where
  "Sum256_abc123 v =
     (if v = ''abc123''
      then map char_of
             [108, 161, 61, 82, 202, 112, 200, 131, 224, 240, 187, 16, 30, 66, 90, 137,
              232, 98, 77, 229, 29, 178, 210, 57, 37, 147, 175, 106, 132, 17, 128, 144 :: nat]
      else [])"

definition L0 :: Libraries where
  "L0 = \<lparr>jwt_validate = Validator_Validate, sha256_Sum256 = Sum256_abc123,
          base64_RawURLEncoding = RawURLEncoding_EncodeToString\<rparr>"

definition svc0 :: OAuth2Service where
  "svc0 = \<lparr>jwtUtil = \<lparr>secret = ''k3y'', issuer = ''gogin''\<rparr>,
            config = \<lparr>AccessTokenExpiry = 3600 * Second,
                       RefreshTokenExpiry = 2592000 * Second\<rparr>\<rparr>"

text \<open>
  A confidential client with one registered redirect URI, stored as the JSON array
  that \<^verbatim>\<open>CreateClient\<close> writes, and a client registered for the client-credentials
  grant only.
\<close>

definition client1 :: OAuthClient where
  \<open>client1 = \<lparr>cl_ID = ''id-1'', cl_ClientID = ''cid-1'', cl_ClientSecret = ''s3cr3t'',
     cl_Name = ''app'', cl_Description = None,
     cl_RedirectURIs = ''["https://good.example/cb"]'', cl_Scopes = ''read write'',
     cl_GrantTypes = ''authorization_code refresh_token'', cl_IsPublic = False,
     cl_IsActive = True, cl_CreatedBy = ''admin'', cl_DeletedAt = None\<rparr>\<close>

definition client2 :: OAuthClient where
  \<open>client2 = \<lparr>cl_ID = ''id-2'', cl_ClientID = ''cid-2'', cl_ClientSecret = ''p4ss'',
     cl_Name = ''batch'', cl_Description = None,
     cl_RedirectURIs = ''["https://batch.example/cb"]'', cl_Scopes = ''read'',
     cl_GrantTypes = ''client_credentials'', cl_IsPublic = False,
     cl_IsActive = True, cl_CreatedBy = ''admin'', cl_DeletedAt = None\<rparr>\<close>

definition ids :: "string \<Rightarrow> nat \<Rightarrow> string" where
  "ids p n = p @ (if n = 0 then ''-0'' else if n = 1 then ''-1'' else ''-2'')"

text \<open>
  Stored codes, all expiring at second 600: \<open>code1\<close> for \<open>client1\<close> without PKCE,
  \<open>code2\<close> for \<open>client2\<close>, \<open>code3\<close> bound to the \<^verbatim>\<open>S256\<close> challenge of the
  verifier \<^verbatim>\<open>abc123\<close>, and \<open>code4\<close> already used.
\<close>

definition code1 :: OAuthAuthorizationCode where
  "code1 = \<lparr>ac_ID = ''row-1'', ac_Code = ''code-1'', ac_ClientID = ''cid-1'',
     ac_UserID = ''u-1'', ac_RedirectURI = ''https://good.example/cb'',
     ac_Scopes = ''read write'', ac_CodeChallenge = None, ac_CodeChallengeMethod = None,
     ac_ExpiresAt = 600 * Second, ac_IsUsed = False\<rparr>"

definition code2 :: OAuthAuthorizationCode where
  "code2 = \<lparr>ac_ID = ''row-2'', ac_Code = ''code-2'', ac_ClientID = ''cid-2'',
     ac_UserID = ''u-1'', ac_RedirectURI = ''https://batch.example/cb'',
     ac_Scopes = ''read'', ac_CodeChallenge = None, ac_CodeChallengeMethod = None,
     ac_ExpiresAt = 600 * Second, ac_IsUsed = False\<rparr>"

definition code3 :: OAuthAuthorizationCode where
  "code3 = \<lparr>ac_ID = ''row-3'', ac_Code = ''code-3'', ac_ClientID = ''cid-1'',
     ac_UserID = ''u-1'', ac_RedirectURI = ''https://good.example/cb'',
     ac_Scopes = ''read write'',
     ac_CodeChallenge = Some ''bKE9UspwyIPg8LsQHkJaiehiTeUdstI5JZOvaoQRgJA'',
     ac_CodeChallengeMethod = Some ''S256'',
     ac_ExpiresAt = 600 * Second, ac_IsUsed = False\<rparr>"

definition code4 :: OAuthAuthorizationCode where
  "code4 = \<lparr>ac_ID = ''row-4'', ac_Code = ''code-4'', ac_ClientID = ''cid-1'',
     ac_UserID = ''u-1'', ac_RedirectURI = ''https://good.example/cb'',
     ac_Scopes = ''read write'', ac_CodeChallenge = None, ac_CodeChallengeMethod = None,
     ac_ExpiresAt = 600 * Second, ac_IsUsed = True\<rparr>"

definition db0 :: Database where
  "db0 = \<lparr>db_reachable = True, users = [''u-1''], oauth_clients = [client1, client2],
     oauth_authorization_codes = [code1, code2, code3, code4], oauth_tokens = []\<rparr>"

definition redis0 :: Redis where
  "redis0 = \<lparr>redis_reachable = True, redis_entries = Map.empty\<rparr>"

definition exchange_request :: "string \<Rightarrow> string \<Rightarrow> string \<Rightarrow> string \<Rightarrow> string \<Rightarrow> TokenRequest" where
  "exchange_request code redirectURI clientID clientSecret verifier =
     \<lparr>rq_GrantType = ''authorization_code'', rq_Code = code, rq_RedirectURI = redirectURI,
      rq_ClientID = clientID, rq_ClientSecret = clientSecret, rq_RefreshToken = NotJWT [],
      rq_CodeVerifier = verifier, rq_Scope = []\<rparr>"

definition authorize_request :: "string \<Rightarrow> string \<Rightarrow> AuthorizeRequest" where
  "authorize_request clientID redirectURI =
     \<lparr>ar_ClientID = clientID, ar_RedirectURI = redirectURI, ar_ResponseType = ''code'',
      ar_Scope = ''read write'', ar_State = ''xyz'', ar_CodeChallenge = [],
      ar_CodeChallengeMethod = []\<rparr>"

text \<open>The UNIQUE constraint on \<^verbatim>\<open>oauth_authorization_codes(code)\<close>, as a predicate.\<close>

definition codes_unique :: "Database \<Rightarrow> bool" where
  "codes_unique db = distinct (map ac_Code (oauth_authorization_codes db))"

text \<open>
  The claims of the access token that the server issues at instant 0 to user
  \<^verbatim>\<open>u-1\<close> through \<open>client1\<close>, valid for an hour.
\<close>

definition claims0 :: JWTClaims where
  "claims0 = \<lparr>jc_UserID = ''u-1'', jc_ClientID = ''cid-1'', jc_Role = [],
     jc_Scopes = [''read''], jc_TokenID = ''t-1'', jc_Issuer = ''gogin'',
     jc_Subject = ''u-1'', jc_ExpiresAt = Some (3600 * Second), jc_IssuedAt = Some 0,
     jc_NotBefore = Some 0, jc_ID = ''t-1''\<rparr>"

definition token0 :: token_string where
  "token0 = JWS (Some (SigningMethodHMAC SHA256)) claims0 ''k3y''"

text \<open>
  A cache that holds the revocation entry of that token and cannot be reached.
\<close>

definition redis_down :: Redis where
  "redis_down = \<lparr>redis_reachable = False,
     redis_entries = [''revoked_token:t-1'' \<mapsto> (''revoked'', 3600 * Second)]\<rparr>"

text \<open>
  The same token with an expiry at second 5, and the cache after \<open>token0\<close> has been
  revoked.
\<close>

definition expired_token :: token_string where
  "expired_token = JWS (Some (SigningMethodHMAC SHA256))
     (claims0\<lparr>jc_ExpiresAt := Some (5 * Second)\<rparr>) ''k3y''"

definition redis1 :: Redis where
  "redis1 = \<lparr>redis_reachable = True,
     redis_entries = [''revoked_token:t-1'' \<mapsto> (''revoked'', 3600 * Second)]\<rparr>"

text \<open>
  Two exchange requests for \<open>code1\<close>, with the right client secret and with a wrong
  one; the identifiers drawn by two requests in flight; and the store after \<open>code1\<close>
  has been marked used.
\<close>

definition req1 :: TokenRequest where
  "req1 = exchange_request ''code-1'' ''https://good.example/cb'' ''cid-1'' ''s3cr3t'' []"

definition req_wrong_secret :: TokenRequest where
  "req_wrong_secret =
     exchange_request ''code-1'' ''https://good.example/cb'' ''cid-1'' ''guess'' []"

definition thread_ids :: "nat \<Rightarrow> nat \<Rightarrow> string" where
  "thread_ids i = ids (if i = 0 then ''a'' else ''b'')"

definition two_requests :: "((nat \<Rightarrow> string) \<times> time \<times> TokenRequest) list" where
  "two_requests = [(ids ''a'', 10 * Second, req1), (ids ''b'', 20 * Second, req1)]"

definition db0_code1_used :: Database where
  "db0_code1_used = db0\<lparr>oauth_authorization_codes :=
     [code1\<lparr>ac_IsUsed := True\<rparr>, code2, code3, code4]\<rparr>"

subsection \<open>Notions used in the proofs\<close>

abbreviation codes :: "Database \<Rightarrow> OAuthAuthorizationCode list" where
  "codes \<equiv> oauth_authorization_codes"

text \<open>The effect of the \<^verbatim>\<open>UPDATE\<close> on one row.\<close>

definition mark :: "string \<Rightarrow> OAuthAuthorizationCode \<Rightarrow> OAuthAuthorizationCode" where
  "mark ident r = (if ac_ID r = ident then r\<lparr>ac_IsUsed := True\<rparr> else r)"

text \<open>
  The refresh token issued with \<open>token0\<close>, a refresh request, and the response that
  the refresh grant gives to it at second 10.
\<close>

definition refresh0 :: token_string where
  "refresh0 = fst (GenerateRefreshToken (jwtUtil svc0) 0 ''t-1'' ''u-1'' ''cid-1''
     (2592000 * Second))"

definition refresh_request :: "string \<Rightarrow> token_string \<Rightarrow> TokenRequest" where
  "refresh_request clientID tok =
     \<lparr>rq_GrantType = ''refresh_token'', rq_Code = [], rq_RedirectURI = [],
      rq_ClientID = clientID, rq_ClientSecret = [], rq_RefreshToken = tok,
      rq_CodeVerifier = [], rq_Scope = []\<rparr>"

definition refreshed :: TokenResponse where
  "refreshed = \<lparr>rs_AccessToken = fst (GenerateAccessToken (jwtUtil svc0) (10 * Second) ''r-0''
        ''u-1'' ''cid-1'' [] [] (3600 * Second)),
      rs_TokenType = ''Bearer'', rs_ExpiresIn = 3600,
      rs_RefreshToken = fst (GenerateRefreshToken (jwtUtil svc0) (10 * Second) ''r-1''
        ''u-1'' ''cid-1'' (2592000 * Second)),
      rs_Scope = []\<rparr>"

text \<open>
  Requests of \<open>client2\<close>, which is registered for the client-credentials grant only:
  an exchange of \<open>code2\<close> and a refresh with a refresh token issued to it. A
  client-credentials request, the response that carries a fresh pair of tokens, and two
  exchanges that send a PKCE verifier.
\<close>

definition req2 :: TokenRequest where
  "req2 = exchange_request ''code-2'' ''https://batch.example/cb'' ''cid-2'' ''p4ss'' []"

definition refresh2 :: token_string where
  "refresh2 = fst (GenerateRefreshToken (jwtUtil svc0) 0 ''t-2'' ''u-1'' ''cid-2''
     (2592000 * Second))"

definition client_credentials_request :: "string \<Rightarrow> string \<Rightarrow> TokenRequest" where
  "client_credentials_request clientID clientSecret =
     \<lparr>rq_GrantType = ''client_credentials'', rq_Code = [], rq_RedirectURI = [],
      rq_ClientID = clientID, rq_ClientSecret = clientSecret, rq_RefreshToken = NotJWT [],
      rq_CodeVerifier = [], rq_Scope = []\<rparr>"

definition issued :: "string \<Rightarrow> time \<Rightarrow> string \<Rightarrow> string list \<Rightarrow> TokenResponse" where
  "issued p now clientID scopes =
     \<lparr>rs_AccessToken = fst (GenerateAccessToken (jwtUtil svc0) now (ids p 0) ''u-1'' clientID
        [] scopes (3600 * Second)),
      rs_TokenType = ''Bearer'', rs_ExpiresIn = 3600,
      rs_RefreshToken = fst (GenerateRefreshToken (jwtUtil svc0) now (ids p 1) ''u-1''
        clientID (2592000 * Second)),
      rs_Scope = Join scopes\<rparr>"



section \<open>Properties\<close>

text \<open>The definitions that the examples unfold.\<close>

lemmas ex_defs = L0_def svc0_def db0_def client1_def client2_def code1_def code2_def code3_def
  code4_def ids_def exchange_request_def req1_def thread_ids_def Second_def Minute_def

lemmas op_defs = ExchangeCodeForToken_def ExchangeCodeForToken_fetch_def
  ExchangeCodeForToken_redeem_def select_unused_code_def update_code_used_def
  GetClientByClientID_def generateTokens_def insert_token_def IsExpired_def
  GenerateAccessToken_def GenerateRefreshToken_def NewNumericDate_def Let_def

subsection \<open>Strings\<close>

lemma HasPrefix_iff: "HasPrefix s p \<longleftrightarrow> (\<exists>q. s = p @ q)"
  by (induction s p rule: HasPrefix.induct) auto

text \<open>\<open>Contains\<close> is the substring test.\<close>

lemma Contains_iff: "Contains s substr \<longleftrightarrow> (\<exists>p q. s = p @ substr @ q)"
proof (induction s)
  case Nil
  then show ?case by simp
next
  case (Cons c cs)
  show ?case
  proof
    assume "Contains (c # cs) substr"
    then consider "HasPrefix (c # cs) substr" | "Contains cs substr" by auto
    then show "\<exists>p q. c # cs = p @ substr @ q"
    proof cases
      case 1
      then obtain q where "c # cs = substr @ q" by (auto simp: HasPrefix_iff)
      then have "c # cs = [] @ substr @ q" by simp
      then show ?thesis by blast
    next
      case 2
      then obtain p q where "cs = p @ substr @ q" using Cons.IH by blast
      then have "c # cs = (c # p) @ substr @ q" by simp
      then show ?thesis by blast
    qed
  next
    assume "\<exists>p q. c # cs = p @ substr @ q"
    then obtain p q where pq: "c # cs = p @ substr @ q" by blast
    show "Contains (c # cs) substr"
    proof (cases p)
      case Nil
      with pq have "HasPrefix (c # cs) substr" by (auto simp: HasPrefix_iff)
      then show ?thesis by simp
    next
      case (Cons a p')
      with pq have "cs = p' @ substr @ q" by simp
      then have "Contains cs substr" using Cons.IH by blast
      then show ?thesis by simp
    qed
  qed
qed

subsection \<open>Redirect URIs\<close>

text \<open>
  The stored redirect URIs are one string, and a requested URI passes when it occurs
  anywhere inside that string.
\<close>

lemma validateRedirectURI_iff:
  "validateRedirectURI client u \<longleftrightarrow> (\<exists>p q. cl_RedirectURIs client = p @ u @ q)"
  by (simp add: validateRedirectURI_def Contains_iff)

text \<open>The two requests that the specification lists are refused.\<close>

lemma listed_redirect_uris_refused:
  "\<not> validateRedirectURI client1 ''https://good.example/cbx''"
  "\<not> validateRedirectURI client1 ''https://good.example/cb/../evil''"
  by (simp_all add: validateRedirectURI_def client1_def)

text \<open>
  Claim C2: a requested redirect URI is accepted if and only if it equals one of the
  registered URIs; a prefix of a registered URI must fail.

  The code accepts a proper prefix. With \<^verbatim>\<open>https://good.example/cb\<close> as the only
  registered URI, the authorize request for \<^verbatim>\<open>https://good.example/c\<close> passes the
  check, and the endpoint stores and returns a code bound to that URI.
\<close>

theorem C2_prefix_of_registered_uri_accepted:
  "validateRedirectURI client1 ''https://good.example/c''
   \<and> authorize (ids ''a'') 1000 ''u-1''
        (authorize_request ''cid-1'' ''https://good.example/c'') db0
     = (Inr \<lparr>az_Code = ''a-0'', az_State = ''xyz''\<rparr>,
        db0\<lparr>oauth_authorization_codes := oauth_authorization_codes db0 @
          [\<lparr>ac_ID = ''a-1'', ac_Code = ''a-0'', ac_ClientID = ''cid-1'', ac_UserID = ''u-1'',
            ac_RedirectURI = ''https://good.example/c'', ac_Scopes = ''read write'',
            ac_CodeChallenge = None, ac_CodeChallengeMethod = None,
            ac_ExpiresAt = 1000 + 600 * Second, ac_IsUsed = False\<rparr>]\<rparr>)"
  by (simp add: validateRedirectURI_def client1_def client2_def authorize_def
      bind_AuthorizeRequest_def authorize_request_def CreateAuthorizationCode_def
      GetClientByClientID_def db0_def insert_authorization_code_def ids_def Let_def
      code1_def code2_def code3_def code4_def Minute_def)

subsection \<open>Token validation\<close>

lemma ValidateToken_NotJWT:
  "ValidateToken validate j now (NotJWT x) = Inl (FailedToParseToken ErrTokenMalformed)"
  by (simp add: ValidateToken_def ParseWithClaims_def)

lemma ValidateToken_JWS:
  "ValidateToken validate j now (JWS alg c k) =
     (case alg of
        Some (SigningMethodHMAC h) \<Rightarrow>
          if k \<noteq> secret j then Inl (FailedToParseToken ErrTokenSignatureInvalid)
          else if \<not> validate now c then Inl (FailedToParseToken ErrTokenInvalidClaims)
          else if (case jc_ExpiresAt c of None \<Rightarrow> False | Some e \<Rightarrow> e < now)
          then Inl TokenHasExpired
          else Inr c
      | _ \<Rightarrow> Inl (FailedToParseToken ErrTokenUnverifiable))"
  by (auto simp: ValidateToken_def ParseWithClaims_def keyFunc_def Verify_def Let_def
      split: option.splits SigningMethod.splits)

text \<open>
  Claim C5, as stated: validation rejects every token whose declared algorithm differs
  from the single configured one, and re-checks the expiry itself.

  The server signs with \<^verbatim>\<open>HS256\<close>, yet a token that declares \<^verbatim>\<open>HS512\<close> and is
  signed under the secret is accepted: the key function admits the whole HMAC family.
\<close>

theorem C5_hs512_token_accepted:
  "ValidateToken Validator_Validate (jwtUtil svc0) (10 * Second)
     (JWS (Some (SigningMethodHMAC SHA512)) claims0 ''k3y'') = Inr claims0
   \<and> fst (GenerateAccessToken (jwtUtil svc0) 0 ''t-1'' ''u-1'' ''cid-1'' [] [''read'']
            (3600 * Second))
       = JWS (Some (SigningMethodHMAC SHA256)) claims0 ''k3y''"
  by (simp add: ValidateToken_JWS svc0_def claims0_def Validator_Validate_def Second_def
      GenerateAccessToken_def NewNumericDate_def)

text \<open>
  Claim C5, amended: validation accepts a token exactly when it declares a method of
  the HMAC family (\<^verbatim>\<open>HS256\<close>, \<^verbatim>\<open>HS384\<close> or \<^verbatim>\<open>HS512\<close>), is signed under the
  configured secret, passes the library's claim validation, and its expiry, if it has
  one, is not before the current time; every other token is rejected. The expiry is
  re-checked by the code itself: whatever the library's claim validation decides, a
  token whose expiry lies before the current time is rejected as expired.
\<close>

theorem C5_validate_accepts_iff:
  "(ValidateToken validate j now tok = Inr c \<longleftrightarrow>
      (\<exists>h. tok = JWS (Some (SigningMethodHMAC h)) c (secret j)) \<and> validate now c
      \<and> (\<forall>e. jc_ExpiresAt c = Some e \<longrightarrow> now \<le> e))
   \<and> (\<forall>h e. jc_ExpiresAt c = Some e \<and> e < now \<and> validate now c \<longrightarrow>
         ValidateToken validate j now (JWS (Some (SigningMethodHMAC h)) c (secret j))
           = Inl TokenHasExpired)"
proof (cases tok)
  case (NotJWT x)
  then show ?thesis by (simp add: ValidateToken_NotJWT ValidateToken_JWS)
next
  case (JWS alg c' k)
  then show ?thesis
    by (auto simp: ValidateToken_JWS split: option.splits SigningMethod.splits if_splits)
qed

theorem C5_validate_accepts_iff_witness:
  "ValidateToken Validator_Validate (jwtUtil svc0) (10 * Second) token0 = Inr claims0
   \<and> ValidateToken (\<lambda>now c. True) (jwtUtil svc0) (3601 * Second) token0
       = Inl TokenHasExpired"
  using C5_validate_accepts_iff [of Validator_Validate "jwtUtil svc0" "10 * Second"
      token0 claims0]
    C5_validate_accepts_iff [of "\<lambda>now c. True" "jwtUtil svc0" "3601 * Second"
      token0 claims0]
  by (simp add: svc0_def claims0_def token0_def Validator_Validate_def Second_def)

subsection \<open>The revocation lookup\<close>

text \<open>
  Claim C9: when the lookup of a token in the revocation ledger returns an error, the
  refresh-token grant and introspection treat the token as not revoked and go on as if
  the lookup had answered false, rather than rejecting the request.

  A lookup that errs yields \<^verbatim>\<open>(false, err)\<close>. The grant then depends on the
  validation of the refresh token and on the client identifier only: it never answers
  that the token has been revoked, and a valid token of the requesting client gets its
  new pair of tokens. Introspection reports a valid token active with its fields. Both
  behave as on any cache \<open>r'\<close> whose lookups answer false.
\<close>

theorem C9_lookup_error_fail_open:
  assumes "snd (IsTokenRevoked now tokenID r) \<noteq> None"
  shows "IsTokenRevoked now tokenID r = (False, Some RedisError)
    \<and> RefreshTokenGrant L s uuid now req r db =
        (case ValidateToken (jwt_validate L) (jwtUtil s) now (rq_RefreshToken req) of
           Inl err \<Rightarrow> (Inl InvalidRefreshToken, db)
         | Inr claims \<Rightarrow>
             if jc_ClientID claims \<noteq> rq_ClientID req then (Inl ClientMismatch, db)
             else generateTokens s uuid now (jc_UserID claims) (rq_ClientID req)
                    (jc_Scopes claims) db)
    \<and> fst (RefreshTokenGrant L s uuid now req r db) \<noteq> Inl RefreshTokenRevoked
    \<and> IntrospectToken L s now tok r =
        (case ValidateToken (jwt_validate L) (jwtUtil s) now tok of
           Inl err \<Rightarrow> Inr inactive
         | Inr claims \<Rightarrow>
             (case (jc_ExpiresAt claims, jc_IssuedAt claims) of
                (Some expiresAt, Some issuedAt) \<Rightarrow>
                  Inr \<lparr>ir_Active = True, ir_Scope = Join (jc_Scopes claims),
                       ir_ClientID = jc_ClientID claims, ir_UserID = jc_UserID claims,
                       ir_TokenType = ''Bearer'', ir_ExpiresAt = Unix expiresAt,
                       ir_IssuedAt = Unix issuedAt\<rparr>
              | _ \<Rightarrow> Inl NilPointerPanic))
    \<and> (\<forall>r'. (\<forall>t. \<not> fst (IsTokenRevoked now t r')) \<longrightarrow>
          RefreshTokenGrant L s uuid now req r db = RefreshTokenGrant L s uuid now req r' db
          \<and> IntrospectToken L s now tok r = IntrospectToken L s now tok r')"
proof -
  from assms have down: "\<not> redis_reachable r"
    by (auto simp: IsTokenRevoked_def RedisClient_Exists_def split: if_splits)
  then have f: "\<And>t. fst (IsTokenRevoked now t r) = False"
    by (simp add: IsTokenRevoked_def RedisClient_Exists_def)
  from down have 1: "IsTokenRevoked now tokenID r = (False, Some RedisError)"
    by (simp add: IsTokenRevoked_def RedisClient_Exists_def)
  have 2: "RefreshTokenGrant L s uuid now req r db =
        (case ValidateToken (jwt_validate L) (jwtUtil s) now (rq_RefreshToken req) of
           Inl err \<Rightarrow> (Inl InvalidRefreshToken, db)
         | Inr claims \<Rightarrow>
             if jc_ClientID claims \<noteq> rq_ClientID req then (Inl ClientMismatch, db)
             else generateTokens s uuid now (jc_UserID claims) (rq_ClientID req)
                    (jc_Scopes claims) db)"
    using f by (simp add: RefreshTokenGrant_def Let_def split: sum.splits)
  have g: "fst (generateTokens s uuid now userID clientID scopes db) \<noteq> Inl RefreshTokenRevoked"
    for userID clientID scopes
    by (simp add: generateTokens_def insert_token_def Let_def split: prod.splits option.splits)
  have 3: "fst (RefreshTokenGrant L s uuid now req r db) \<noteq> Inl RefreshTokenRevoked"
    unfolding 2 using g by (simp split: sum.splits)
  have 4: "IntrospectToken L s now tok r =
        (case ValidateToken (jwt_validate L) (jwtUtil s) now tok of
           Inl err \<Rightarrow> Inr inactive
         | Inr claims \<Rightarrow>
             (case (jc_ExpiresAt claims, jc_IssuedAt claims) of
                (Some expiresAt, Some issuedAt) \<Rightarrow>
                  Inr \<lparr>ir_Active = True, ir_Scope = Join (jc_Scopes claims),
                       ir_ClientID = jc_ClientID claims, ir_UserID = jc_UserID claims,
                       ir_TokenType = ''Bearer'', ir_ExpiresAt = Unix expiresAt,
                       ir_IssuedAt = Unix issuedAt\<rparr>
              | _ \<Rightarrow> Inl NilPointerPanic))"
    using f by (simp add: IntrospectToken_def Let_def split: sum.splits)
  have 5: "RefreshTokenGrant L s uuid now req r db = RefreshTokenGrant L s uuid now req r' db
          \<and> IntrospectToken L s now tok r = IntrospectToken L s now tok r'"
    if "\<forall>t. \<not> fst (IsTokenRevoked now t r')" for r'
    using that f
    by (simp add: RefreshTokenGrant_def IntrospectToken_def Let_def split: sum.splits)
  from 1 2 3 4 5 show ?thesis by (intro conjI allI impI) auto
qed

theorem C9_lookup_error_fail_open_witness:
  "snd (IsTokenRevoked (10 * Second) ''t-1'' redis_down) \<noteq> None
   \<and> redis_entries redis_down ''revoked_token:t-1'' = Some (''revoked'', 3600 * Second)
   \<and> fst (RefreshTokenGrant L0 svc0 (ids ''r'') (10 * Second)
          (refresh_request ''cid-1'' refresh0) redis_down db0) = Inr refreshed
   \<and> IntrospectToken L0 svc0 (10 * Second) token0 redis_down
       = Inr \<lparr>ir_Active = True, ir_Scope = ''read'', ir_ClientID = ''cid-1'',
              ir_UserID = ''u-1'', ir_TokenType = ''Bearer'', ir_ExpiresAt = 3600,
              ir_IssuedAt = 0\<rparr>"
proof -
  have err: "snd (IsTokenRevoked (10 * Second) ''t-1'' redis_down) \<noteq> None"
    by (simp add: IsTokenRevoked_def RedisClient_Exists_def redis_down_def)
  have ent: "redis_entries redis_down ''revoked_token:t-1'' = Some (''revoked'', 3600 * Second)"
    by (simp add: redis_down_def)
  note t = C9_lookup_error_fail_open [OF err, of L0 svc0 "ids ''r''" "refresh_request ''cid-1'' refresh0" db0
      token0]
  have rq: "rq_RefreshToken (refresh_request ''cid-1'' refresh0) = refresh0"
    "rq_ClientID (refresh_request ''cid-1'' refresh0) = ''cid-1''"
    by (simp_all add: refresh_request_def)
  have v: "ValidateToken (jwt_validate L0) (jwtUtil svc0) (10 * Second) refresh0
      = Inr \<lparr>jc_UserID = ''u-1'', jc_ClientID = ''cid-1'', jc_Role = [], jc_Scopes = [],
         jc_TokenID = ''t-1'', jc_Issuer = ''gogin'', jc_Subject = ''u-1'',
         jc_ExpiresAt = Some (2592000 * Second), jc_IssuedAt = Some 0,
         jc_NotBefore = Some 0, jc_ID = ''t-1''\<rparr>"
    by (simp add: refresh0_def GenerateRefreshToken_def ValidateToken_JWS
        L0_def svc0_def NewNumericDate_def Validator_Validate_def Second_def)
  have g: "fst (generateTokens svc0 (ids ''r'') (10 * Second) ''u-1'' ''cid-1'' [] db0)
      = Inr refreshed"
    by (simp add: generateTokens_def insert_token_def Let_def refreshed_def ex_defs
        Seconds_int_def)
  from t have "RefreshTokenGrant L0 svc0 (ids ''r'') (10 * Second)
          (refresh_request ''cid-1'' refresh0) redis_down db0 =
        (case ValidateToken (jwt_validate L0) (jwtUtil svc0) (10 * Second)
            (rq_RefreshToken (refresh_request ''cid-1'' refresh0)) of
           Inl err \<Rightarrow> (Inl InvalidRefreshToken, db0)
         | Inr claims \<Rightarrow>
             if jc_ClientID claims \<noteq> rq_ClientID (refresh_request ''cid-1'' refresh0)
             then (Inl ClientMismatch, db0)
             else generateTokens svc0 (ids ''r'') (10 * Second) (jc_UserID claims)
                    (rq_ClientID (refresh_request ''cid-1'' refresh0)) (jc_Scopes claims) db0)"
    by (elim conjE)
  then have grant: "fst (RefreshTokenGrant L0 svc0 (ids ''r'') (10 * Second)
          (refresh_request ''cid-1'' refresh0) redis_down db0) = Inr refreshed"
    by (simp add: rq v g)
  have i: "IntrospectToken L0 svc0 (10 * Second) token0 redis_down
       = Inr \<lparr>ir_Active = True, ir_Scope = ''read'', ir_ClientID = ''cid-1'',
              ir_UserID = ''u-1'', ir_TokenType = ''Bearer'', ir_ExpiresAt = 3600,
              ir_IssuedAt = 0\<rparr>"
    by (simp add: IntrospectToken_def ValidateToken_JWS token0_def L0_def svc0_def claims0_def
        Validator_Validate_def IsTokenRevoked_def RedisClient_Exists_def redis_down_def
        Second_def Unix_def)
  from err ent grant i show ?thesis by (intro conjI)
qed

subsection \<open>Revocation\<close>

text \<open>
  Claim C7, as stated: revoke succeeds for every valid, unexpired token and is a
  successful no-op for an expired or malformed one.

  The code answers a malformed token and an expired token with the error
  \<^verbatim>\<open>invalid token\<close>, and a valid token with the error of the cache when the entry
  cannot be written.
\<close>

theorem C7_revoke_rejects_invalid_token:
  "RevokeToken L0 svc0 (10 * Second) (NotJWT ''garbage'') redis0 = (Some InvalidToken, redis0)
   \<and> RevokeToken L0 svc0 (10 * Second) expired_token redis0 = (Some InvalidToken, redis0)
   \<and> RevokeToken L0 svc0 (10 * Second) token0 redis_down
       = (Some RedisError, redis_down)"
  by (simp add: RevokeToken_def ValidateToken_NotJWT ValidateToken_JWS L0_def svc0_def
      expired_token_def claims0_def token0_def Validator_Validate_def Second_def
      RedisHelper_RevokeToken_def RedisClient_Set_def redis_down_def)

text \<open>
  Claim C7, amended: for a token that validation accepts and whose expiry lies ahead,
  revoke writes the entry \<^verbatim>\<open>revoked_token:<jti>\<close> with a time to live equal to the
  remaining lifetime, and returns what that write returns: success when the cache can be
  reached, leaving an entry that lapses at the token's expiry. For a token that
  validation rejects (malformed, wrongly signed or expired) revoke returns the error
  \<^verbatim>\<open>invalid token\<close> and writes nothing.
\<close>

theorem C7_revoke_valid_or_invalid:
  "(\<forall>c e. ValidateToken (jwt_validate L) (jwtUtil s) now tok = Inr c \<and> jc_ExpiresAt c = Some e
          \<and> now < e \<longrightarrow>
      RevokeToken L s now tok r
        = RedisClient_Set now (''revoked_token:'' @ jc_TokenID c) ''revoked'' (e - now) r
      \<and> (redis_reachable r \<longrightarrow>
           RevokeToken L s now tok r
             = (None, r\<lparr>redis_entries :=
                  (redis_entries r)(''revoked_token:'' @ jc_TokenID c \<mapsto> (''revoked'', e))\<rparr>)))
   \<and> (\<forall>err. ValidateToken (jwt_validate L) (jwtUtil s) now tok = Inl err \<longrightarrow>
         RevokeToken L s now tok r = (Some InvalidToken, r))"
  by (auto simp: RevokeToken_def RedisHelper_RevokeToken_def RedisClient_Set_def Let_def)

theorem C7_revoke_valid_or_invalid_witness:
  "RevokeToken L0 svc0 (10 * Second) token0 redis0
     = (None, redis0\<lparr>redis_entries :=
          (redis_entries redis0)(''revoked_token:t-1'' \<mapsto> (''revoked'', 3600 * Second))\<rparr>)
   \<and> RevokeToken L0 svc0 (10 * Second) (NotJWT ''garbage'') redis0 = (Some InvalidToken, redis0)"
proof -
  have v: "ValidateToken (jwt_validate L0) (jwtUtil svc0) (10 * Second) token0 = Inr claims0"
    by (simp add: ValidateToken_JWS L0_def svc0_def claims0_def token0_def
        Validator_Validate_def Second_def)
  have e: "jc_ExpiresAt claims0 = Some (3600 * Second)" "10 * Second < 3600 * Second"
    "redis_reachable redis0" "jc_TokenID claims0 = ''t-1''"
    by (simp_all add: claims0_def Second_def redis0_def)
  have n: "ValidateToken (jwt_validate L0) (jwtUtil svc0) (10 * Second) (NotJWT ''garbage'')
      = Inl (FailedToParseToken ErrTokenMalformed)"
    by (simp add: ValidateToken_NotJWT)
  from C7_revoke_valid_or_invalid [of L0 svc0 "10 * Second" token0 redis0] v e(1,2,3)
  have "RevokeToken L0 svc0 (10 * Second) token0 redis0
     = (None, redis0\<lparr>redis_entries :=
          (redis_entries redis0)(''revoked_token:'' @ jc_TokenID claims0
             \<mapsto> (''revoked'', 3600 * Second))\<rparr>)"
    by blast
  then have a: "RevokeToken L0 svc0 (10 * Second) token0 redis0
     = (None, redis0\<lparr>redis_entries :=
          (redis_entries redis0)(''revoked_token:t-1'' \<mapsto> (''revoked'', 3600 * Second))\<rparr>)"
    by (simp add: e(4))
  from C7_revoke_valid_or_invalid [of L0 svc0 "10 * Second" "NotJWT ''garbage''" redis0] n
  have b: "RevokeToken L0 svc0 (10 * Second) (NotJWT ''garbage'') redis0
      = (Some InvalidToken, redis0)"
    by blast
  from a b show ?thesis by (rule conjI)
qed

subsection \<open>Introspection\<close>

text \<open>
  A token issued by \<open>GenerateAccessToken\<close> is accepted by the library's validation
  from the second of its issue until its expiry.
\<close>

lemma issued_token_validates:
  assumes "tok = fst (GenerateAccessToken j t0 tid userID clientID role scopes expiry)"
  shows "ValidateToken Validator_Validate j now tok =
     (if t0 - t0 mod Second \<le> now \<and> now < (t0 + expiry) - (t0 + expiry) mod Second
      then Inr \<lparr>jc_UserID = userID, jc_ClientID = clientID, jc_Role = role, jc_Scopes = scopes,
         jc_TokenID = tid, jc_Issuer = issuer j, jc_Subject = userID,
         jc_ExpiresAt = NewNumericDate (t0 + expiry), jc_IssuedAt = NewNumericDate t0,
         jc_NotBefore = NewNumericDate t0, jc_ID = tid\<rparr>
      else Inl (FailedToParseToken ErrTokenInvalidClaims))"
  using assms
  by (auto simp: GenerateAccessToken_def ValidateToken_JWS Validator_Validate_def
      NewNumericDate_def)

text \<open>
  Claim C8, as stated: introspection returns \<^verbatim>\<open>active:false\<close> with every other field
  empty whenever the token is invalid, expired or revoked; in particular, after a token
  has been issued and revoked, introspection returns \<^verbatim>\<open>active:false\<close> while
  validation applied to the token directly still accepts it.

  \<open>token0\<close> is revoked on a reachable cache, and the cache then becomes unreachable.
  The ledger holds the revocation entry of the token, and introspection reports the
  token active with all its fields.
\<close>

theorem C8_revoked_token_reported_active:
  "RevokeToken L0 svc0 (5 * Second) token0 redis0 = (None, redis1)
   \<and> redis_down = redis1\<lparr>redis_reachable := False\<rparr>
   \<and> redis_entries redis_down (''revoked_token:'' @ jc_TokenID claims0)
       = Some (''revoked'', 3600 * Second)
   \<and> IntrospectToken L0 svc0 (10 * Second) token0 redis_down
       = Inr \<lparr>ir_Active = True, ir_Scope = ''read'', ir_ClientID = ''cid-1'',
              ir_UserID = ''u-1'', ir_TokenType = ''Bearer'', ir_ExpiresAt = 3600,
              ir_IssuedAt = 0\<rparr>"
  by (simp add: RevokeToken_def IntrospectToken_def ValidateToken_JWS token0_def L0_def svc0_def
      claims0_def Validator_Validate_def IsTokenRevoked_def RedisClient_Exists_def
      RedisHelper_RevokeToken_def RedisClient_Set_def redis_down_def redis0_def redis1_def
      Second_def Unix_def)

text \<open>
  Claim C8, amended: introspection returns \<^verbatim>\<open>active:false\<close> with every other field
  empty whenever validation rejects the token, whenever the token's expiry is not after
  the current time, and whenever the ledger can be reached and holds a live revocation
  entry for the token's identifier. A token that validation accepts is reported active
  with its fields when the ledger holds no entry for it, and also when the ledger cannot
  be reached, whatever it holds. After an access token has been issued and revoked with
  success, introspection at any later time on the cache that the revocation left returns
  \<^verbatim>\<open>active:false\<close>, while validation applied to the token directly accepts it until it
  expires.
\<close>

theorem C8_introspect_inactive:
  assumes "jwt_validate L = Validator_Validate"
  shows "(\<forall>tok now r err. ValidateToken (jwt_validate L) (jwtUtil s) now tok = Inl err \<longrightarrow>
            IntrospectToken L s now tok r
              = Inr \<lparr>ir_Active = False, ir_Scope = [], ir_ClientID = [], ir_UserID = [],
                     ir_TokenType = [], ir_ExpiresAt = 0, ir_IssuedAt = 0\<rparr>)
    \<and> (\<forall>alg c k e now r. jc_ExpiresAt c = Some e \<and> e \<le> now \<longrightarrow>
            IntrospectToken L s now (JWS alg c k) r
              = Inr \<lparr>ir_Active = False, ir_Scope = [], ir_ClientID = [], ir_UserID = [],
                     ir_TokenType = [], ir_ExpiresAt = 0, ir_IssuedAt = 0\<rparr>)
    \<and> (\<forall>alg c k now r v deadline.
          redis_reachable r
          \<and> redis_entries r (''revoked_token:'' @ jc_TokenID c) = Some (v, deadline)
          \<and> now < deadline \<longrightarrow>
            IntrospectToken L s now (JWS alg c k) r
              = Inr \<lparr>ir_Active = False, ir_Scope = [], ir_ClientID = [], ir_UserID = [],
                     ir_TokenType = [], ir_ExpiresAt = 0, ir_IssuedAt = 0\<rparr>)
    \<and> (\<forall>t0 t1 t2 tid userID clientID role scopes expiry tok r r'.
          tok = fst (GenerateAccessToken (jwtUtil s) t0 tid userID clientID role scopes expiry)
          \<and> RevokeToken L s t1 tok r = (None, r') \<and> t1 \<le> t2 \<longrightarrow>
            IntrospectToken L s t2 tok r'
              = Inr \<lparr>ir_Active = False, ir_Scope = [], ir_ClientID = [], ir_UserID = [],
                     ir_TokenType = [], ir_ExpiresAt = 0, ir_IssuedAt = 0\<rparr>
            \<and> (t2 < (t0 + expiry) - (t0 + expiry) mod Second \<longrightarrow>
                 (\<exists>c. ValidateToken (jwt_validate L) (jwtUtil s) t2 tok = Inr c)))
    \<and> (\<forall>tok now r c e i. ValidateToken (jwt_validate L) (jwtUtil s) now tok = Inr c
          \<and> jc_ExpiresAt c = Some e \<and> jc_IssuedAt c = Some i
          \<and> (\<not> redis_reachable r
              \<or> redis_entries r (''revoked_token:'' @ jc_TokenID c) = None) \<longrightarrow>
            IntrospectToken L s now tok r
              = Inr \<lparr>ir_Active = True, ir_Scope = Join (jc_Scopes c),
                     ir_ClientID = jc_ClientID c, ir_UserID = jc_UserID c,
                     ir_TokenType = ''Bearer'', ir_ExpiresAt = Unix e, ir_IssuedAt = Unix i\<rparr>)"
proof -
  have 1: "IntrospectToken L s now tok r = Inr inactive"
    if "ValidateToken (jwt_validate L) (jwtUtil s) now tok = Inl err" for tok now r err
    using that by (simp add: IntrospectToken_def)
  have 2: "IntrospectToken L s now (JWS alg c k) r = Inr inactive"
    if "jc_ExpiresAt c = Some e" "e \<le> now" for alg c k e now r
  proof -
    have "\<exists>err. ValidateToken (jwt_validate L) (jwtUtil s) now (JWS alg c k) = Inl err"
      using that assms
      by (auto simp: ValidateToken_JWS Validator_Validate_def
          split: option.splits SigningMethod.splits)
    then show ?thesis using 1 by blast
  qed
  have 3: "IntrospectToken L s now tok r = Inr inactive"
    if "ValidateToken (jwt_validate L) (jwtUtil s) now tok = Inr c"
      "fst (IsTokenRevoked now (jc_TokenID c) r)" for tok now r c
    using that by (simp add: IntrospectToken_def)
  have r3: "IntrospectToken L s now (JWS alg c k) r = Inr inactive"
    if "redis_reachable r"
      "redis_entries r (''revoked_token:'' @ jc_TokenID c) = Some (v, deadline)"
      "now < deadline" for alg c k now r v deadline
  proof (cases "ValidateToken (jwt_validate L) (jwtUtil s) now (JWS alg c k)")
    case (Inl err)
    then show ?thesis by (rule 1)
  next
    case (Inr c')
    then have "c' = c"
      by (auto simp: ValidateToken_JWS split: option.splits SigningMethod.splits if_splits)
    moreover have "fst (IsTokenRevoked now (jc_TokenID c) r)"
      using that by (simp add: IsTokenRevoked_def RedisClient_Exists_def)
    ultimately show ?thesis using Inr 3 by blast
  qed
  have 4: "IntrospectToken L s t2 tok r' = Inr inactive
      \<and> (t2 < (t0 + expiry) - (t0 + expiry) mod Second \<longrightarrow>
                 (\<exists>c. ValidateToken (jwt_validate L) (jwtUtil s) t2 tok = Inr c))"
    if tok: "tok = fst (GenerateAccessToken (jwtUtil s) t0 tid userID clientID role scopes expiry)"
      and rev: "RevokeToken L s t1 tok r = (None, r')" and le: "t1 \<le> t2"
    for t0 t1 t2 tid userID clientID role scopes expiry tok r r'
  proof -
    let ?exp = "(t0 + expiry) - (t0 + expiry) mod Second"
    let ?c = "\<lparr>jc_UserID = userID, jc_ClientID = clientID, jc_Role = role, jc_Scopes = scopes,
         jc_TokenID = tid, jc_Issuer = issuer (jwtUtil s), jc_Subject = userID,
         jc_ExpiresAt = NewNumericDate (t0 + expiry), jc_IssuedAt = NewNumericDate t0,
         jc_NotBefore = NewNumericDate t0, jc_ID = tid\<rparr>"
    note v = issued_token_validates [OF tok, folded assms]
    from rev have ok1: "t0 - t0 mod Second \<le> t1 \<and> t1 < ?exp"
      by (auto simp: RevokeToken_def v split: if_splits)
    with rev have r': "redis_reachable r \<and> r' = r\<lparr>redis_entries :=
        (redis_entries r)(''revoked_token:'' @ tid \<mapsto> (''revoked'', ?exp))\<rparr>"
      by (auto simp: RevokeToken_def v NewNumericDate_def RedisHelper_RevokeToken_def
          RedisClient_Set_def Let_def split: if_splits)
    show ?thesis
    proof (cases "t2 < ?exp")
      case True
      with ok1 le have v2: "ValidateToken (jwt_validate L) (jwtUtil s) t2 tok = Inr ?c"
        by (simp add: v)
      have "fst (IsTokenRevoked t2 (jc_TokenID ?c) r')"
        using r' True by (simp add: IsTokenRevoked_def RedisClient_Exists_def)
      with v2 show ?thesis using 3 by blast
    next
      case False
      then have "ValidateToken (jwt_validate L) (jwtUtil s) t2 tok
          = Inl (FailedToParseToken ErrTokenInvalidClaims)"
        by (simp add: v)
      with False show ?thesis using 1 by blast
    qed
  qed
  have 5: "IntrospectToken L s now tok r
              = Inr \<lparr>ir_Active = True, ir_Scope = Join (jc_Scopes c),
                     ir_ClientID = jc_ClientID c, ir_UserID = jc_UserID c,
                     ir_TokenType = ''Bearer'', ir_ExpiresAt = Unix e, ir_IssuedAt = Unix i\<rparr>"
    if "ValidateToken (jwt_validate L) (jwtUtil s) now tok = Inr c"
      "jc_ExpiresAt c = Some e" "jc_IssuedAt c = Some i"
      "\<not> redis_reachable r \<or> redis_entries r (''revoked_token:'' @ jc_TokenID c) = None"
    for tok now r c e i
    using that
    by (auto simp: IntrospectToken_def IsTokenRevoked_def RedisClient_Exists_def)
  show ?thesis
    unfolding inactive_def [symmetric]
  proof (intro conjI allI impI)
    fix tok now r err
    assume "ValidateToken (jwt_validate L) (jwtUtil s) now tok = Inl err"
    then show "IntrospectToken L s now tok r = Inr inactive" by (rule 1)
  next
    fix alg k e now r and c :: JWTClaims
    assume "jc_ExpiresAt c = Some e \<and> e \<le> now"
    then show "IntrospectToken L s now (JWS alg c k) r = Inr inactive" using 2 by blast
  next
    fix alg k now v deadline and c :: JWTClaims and r :: Redis
    assume "redis_reachable r
          \<and> redis_entries r (''revoked_token:'' @ jc_TokenID c) = Some (v, deadline)
          \<and> now < deadline"
    then show "IntrospectToken L s now (JWS alg c k) r = Inr inactive" using r3 by blast
  next
    fix t0 t1 t2 tid userID clientID role scopes expiry tok r r'
    assume h: "tok = fst (GenerateAccessToken (jwtUtil s) t0 tid userID clientID role scopes expiry)
          \<and> RevokeToken L s t1 tok r = (None, r') \<and> t1 \<le> t2"
    then show "IntrospectToken L s t2 tok r' = Inr inactive" using 4 by blast
    assume "t2 < (t0 + expiry) - (t0 + expiry) mod Second"
    with h show "\<exists>c. ValidateToken (jwt_validate L) (jwtUtil s) t2 tok = Inr c"
      using 4 by blast
  next
    fix tok now e i and c :: JWTClaims and r :: Redis
    assume "ValidateToken (jwt_validate L) (jwtUtil s) now tok = Inr c
          \<and> jc_ExpiresAt c = Some e \<and> jc_IssuedAt c = Some i
          \<and> (\<not> redis_reachable r
              \<or> redis_entries r (''revoked_token:'' @ jc_TokenID c) = None)"
    then show "IntrospectToken L s now tok r
              = Inr \<lparr>ir_Active = True, ir_Scope = Join (jc_Scopes c),
                     ir_ClientID = jc_ClientID c, ir_UserID = jc_UserID c,
                     ir_TokenType = ''Bearer'', ir_ExpiresAt = Unix e, ir_IssuedAt = Unix i\<rparr>"
      using 5 by blast
  qed
qed

theorem C8_introspect_inactive_witness:
  "jwt_validate L0 = Validator_Validate
   \<and> token0 = fst (GenerateAccessToken (jwtUtil svc0) 0 ''t-1'' ''u-1'' ''cid-1'' [] [''read'']
        (3600 * Second))
   \<and> IntrospectToken L0 svc0 (5 * Second) token0 redis0
       = Inr \<lparr>ir_Active = True, ir_Scope = ''read'', ir_ClientID = ''cid-1'',
              ir_UserID = ''u-1'', ir_TokenType = ''Bearer'', ir_ExpiresAt = 3600,
              ir_IssuedAt = 0\<rparr>
   \<and> RevokeToken L0 svc0 (10 * Second) token0 redis0 = (None, redis1)
   \<and> IntrospectToken L0 svc0 (20 * Second) token0 redis1
       = Inr \<lparr>ir_Active = False, ir_Scope = [], ir_ClientID = [], ir_UserID = [],
              ir_TokenType = [], ir_ExpiresAt = 0, ir_IssuedAt = 0\<rparr>
   \<and> ValidateToken (jwt_validate L0) (jwtUtil svc0) (20 * Second) token0 = Inr claims0"
proof -
  have h: "jwt_validate L0 = Validator_Validate" by (simp add: L0_def)
  have t: "token0 = fst (GenerateAccessToken (jwtUtil svc0) 0 ''t-1'' ''u-1'' ''cid-1'' []
      [''read''] (3600 * Second))"
    by (simp add: token0_def claims0_def GenerateAccessToken_def svc0_def NewNumericDate_def
        Second_def)
  have r: "RevokeToken L0 svc0 (10 * Second) token0 redis0 = (None, redis1)"
    by (simp add: RevokeToken_def ValidateToken_JWS L0_def svc0_def claims0_def token0_def
        Validator_Validate_def Second_def RedisHelper_RevokeToken_def RedisClient_Set_def
        redis0_def redis1_def)
  have le: "(10 * Second :: int) \<le> 20 * Second" by (simp add: Second_def)
  note th = C8_introspect_inactive [OF h, of svc0]
  note rt = th [THEN conjunct2, THEN conjunct2, THEN conjunct2, THEN conjunct1,
      rule_format, of token0 0 "''t-1''" "''u-1''" "''cid-1''" "[]" "[''read'']"
        "3600 * Second" "10 * Second" redis0 redis1 "20 * Second"]
  from rt t r le
  have i: "IntrospectToken L0 svc0 (20 * Second) token0 redis1
       = Inr \<lparr>ir_Active = False, ir_Scope = [], ir_ClientID = [], ir_UserID = [],
              ir_TokenType = [], ir_ExpiresAt = 0, ir_IssuedAt = 0\<rparr>"
    by blast
  have v5: "ValidateToken (jwt_validate L0) (jwtUtil svc0) (5 * Second) token0 = Inr claims0"
    by (simp add: ValidateToken_JWS L0_def svc0_def claims0_def token0_def
        Validator_Validate_def Second_def)
  have c: "jc_ExpiresAt claims0 = Some (3600 * Second)" "jc_IssuedAt claims0 = Some 0"
    "redis_entries redis0 (''revoked_token:'' @ jc_TokenID claims0) = None"
    by (simp_all add: claims0_def redis0_def)
  from th [THEN conjunct2, THEN conjunct2, THEN conjunct2, THEN conjunct2, rule_format,
      of "5 * Second" token0 claims0 "3600 * Second" 0 redis0] v5 c
  have "IntrospectToken L0 svc0 (5 * Second) token0 redis0
      = Inr \<lparr>ir_Active = True, ir_Scope = Join (jc_Scopes claims0),
             ir_ClientID = jc_ClientID claims0, ir_UserID = jc_UserID claims0,
             ir_TokenType = ''Bearer'', ir_ExpiresAt = Unix (3600 * Second),
             ir_IssuedAt = Unix 0\<rparr>"
    by blast
  then have a: "IntrospectToken L0 svc0 (5 * Second) token0 redis0
       = Inr \<lparr>ir_Active = True, ir_Scope = ''read'', ir_ClientID = ''cid-1'',
              ir_UserID = ''u-1'', ir_TokenType = ''Bearer'', ir_ExpiresAt = 3600,
              ir_IssuedAt = 0\<rparr>"
    by (simp add: claims0_def Unix_def Second_def)
  have v: "ValidateToken (jwt_validate L0) (jwtUtil svc0) (20 * Second) token0 = Inr claims0"
    by (simp add: ValidateToken_JWS L0_def svc0_def claims0_def token0_def
        Validator_Validate_def Second_def)
  from h t a r i v show ?thesis by (intro conjI)
qed

subsection \<open>The store under an exchange\<close>


lemma select_unused_code_Inr:
  "select_unused_code db c = Inr r \<Longrightarrow>
     db_reachable db \<and> r \<in> set (codes db) \<and> ac_Code r = c \<and> \<not> ac_IsUsed r"
  by (auto simp: select_unused_code_def find_Some_iff split: if_splits option.splits)

lemma select_unused_code_spent:
  "(\<forall>r \<in> set (codes db). ac_Code r = c \<longrightarrow> ac_IsUsed r) \<Longrightarrow>
     \<exists>e. select_unused_code db c = Inl e"
  by (cases "select_unused_code db c") (auto dest: select_unused_code_Inr)


lemma generateTokens_codes:
  "codes (snd (generateTokens s uuid now userID clientID scopes db)) = codes db"
  "db_reachable (snd (generateTokens s uuid now userID clientID scopes db)) = db_reachable db"
  by (auto simp: generateTokens_def insert_token_def Let_def split: prod.splits option.splits)


lemma update_code_used_reachable:
  "db_reachable db \<Longrightarrow>
     update_code_used db ident
       = (None, db\<lparr>oauth_authorization_codes := map (mark ident) (codes db)\<rparr>)"
  by (simp add: update_code_used_def mark_def)

lemma redeem_unreachable:
  "\<not> db_reachable db \<Longrightarrow>
     ExchangeCodeForToken_redeem s uuid now req authCode db
       = (Inl (StoreError ErrConnection), db)"
  by (simp add: ExchangeCodeForToken_redeem_def update_code_used_def)

lemma redeem_reachable:
  assumes "db_reachable db"
  shows "codes (snd (ExchangeCodeForToken_redeem s uuid now req authCode db))
           = map (mark (ac_ID authCode)) (codes db)"
    and "db_reachable (snd (ExchangeCodeForToken_redeem s uuid now req authCode db))"
  using assms
  by (simp_all add: ExchangeCodeForToken_redeem_def update_code_used_reachable
      generateTokens_codes split: sum.splits)

lemma redeem_effect:
  assumes "ExchangeCodeForToken_redeem s uuid now req authCode db = (res, db')"
  shows "(res = Inl (StoreError ErrConnection) \<and> db' = db \<and> \<not> db_reachable db)
     \<or> (db_reachable db \<and> db_reachable db'
         \<and> codes db' = map (mark (ac_ID authCode)) (codes db))"
proof (cases "db_reachable db")
  case True
  from redeem_reachable [OF True, of s uuid now req authCode] assms True
  show ?thesis by simp
next
  case False
  from redeem_unreachable [OF False, of s uuid now req authCode] assms False
  show ?thesis by simp
qed

lemma map_mark_codes [simp]: "map ac_Code (map (mark i) xs) = map ac_Code xs"
  by (induction xs) (auto simp: mark_def)

lemma mark_cases: "mark i r = r \<or> mark i r = r\<lparr>ac_IsUsed := True\<rparr>"
  by (simp add: mark_def)

lemma mark_used: "ac_IsUsed r \<Longrightarrow> ac_IsUsed (mark i r)"
  by (simp add: mark_def)

lemma mark_spent:
  assumes "distinct (map ac_Code xs)" "r \<in> set xs"
  shows "\<forall>x \<in> set (map (mark (ac_ID r)) xs). ac_Code x = ac_Code r \<longrightarrow> ac_IsUsed x"
proof
  fix x assume "x \<in> set (map (mark (ac_ID r)) xs)"
  then obtain y where y: "y \<in> set xs" "x = mark (ac_ID r) y" by auto
  show "ac_Code x = ac_Code r \<longrightarrow> ac_IsUsed x"
  proof
    assume "ac_Code x = ac_Code r"
    with y have "ac_Code y = ac_Code r" by (simp add: mark_def split: if_splits)
    with assms y have "y = r" by (auto simp: distinct_map dest: inj_onD)
    with y show "ac_IsUsed x" by (simp add: mark_def)
  qed
qed

lemma fetch_Inr:
  "ExchangeCodeForToken_fetch L now req db = Inr r \<Longrightarrow>
     select_unused_code db (rq_Code req) = Inr r"
  by (auto simp: ExchangeCodeForToken_fetch_def split: sum.splits if_splits)

lemma fetch_Inl:
  "ExchangeCodeForToken_fetch L now req db = Inl e \<Longrightarrow>
     e \<in> {InvalidAuthorizationCode, AuthorizationCodeExpired, ClientMismatch,
          RedirectURIMismatch, InvalidCodeVerifier}"
  by (auto simp: ExchangeCodeForToken_fetch_def split: sum.splits if_splits)

lemma redeem_result:
  "ExchangeCodeForToken_redeem s uuid now req authCode db = (Inl e, db') \<Longrightarrow>
     e = InvalidClientSecret \<or> (\<exists>d. e = StoreError d)"
  by (auto simp: ExchangeCodeForToken_redeem_def generateTokens_def Let_def
      split: sum.splits if_splits prod.splits option.splits)

lemma exchange_effect:
  assumes "ExchangeCodeForToken L s uuid now req db = (res, db')"
  shows "(db' = db \<and> res \<in> Inl ` {InvalidAuthorizationCode, AuthorizationCodeExpired,
              ClientMismatch, RedirectURIMismatch, InvalidCodeVerifier})
    \<or> (\<exists>r. select_unused_code db (rq_Code req) = Inr r \<and> db_reachable db'
          \<and> codes db' = map (mark (ac_ID r)) (codes db)
          \<and> res \<notin> Inl ` {InvalidAuthorizationCode, AuthorizationCodeExpired,
              ClientMismatch, RedirectURIMismatch, InvalidCodeVerifier})"
proof (cases "ExchangeCodeForToken_fetch L now req db")
  case (Inl e)
  with assms have "db' = db" "res = Inl e" by (auto simp: ExchangeCodeForToken_def)
  with fetch_Inl [OF Inl] show ?thesis by auto
next
  case (Inr r)
  with assms have red: "ExchangeCodeForToken_redeem s uuid now req r db = (res, db')"
    by (simp add: ExchangeCodeForToken_def)
  from fetch_Inr [OF Inr] have sel: "select_unused_code db (rq_Code req) = Inr r" .
  then have "db_reachable db" by (auto dest: select_unused_code_Inr)
  with redeem_effect [OF red]
  have eff: "db_reachable db'" "codes db' = map (mark (ac_ID r)) (codes db)" by auto
  have "res \<notin> Inl ` {InvalidAuthorizationCode, AuthorizationCodeExpired,
              ClientMismatch, RedirectURIMismatch, InvalidCodeVerifier}"
  proof (cases res)
    case (Inl e)
    with red redeem_result have "e = InvalidClientSecret \<or> (\<exists>d. e = StoreError d)" by blast
    with Inl show ?thesis by auto
  next
    case (Inr resp)
    then show ?thesis by auto
  qed
  with sel eff show ?thesis by blast
qed

lemma exchange_codes_unique:
  assumes "ExchangeCodeForToken L s uuid now req db = (res, db')" "codes_unique db"
  shows "codes_unique db'"
proof -
  from exchange_effect [OF assms(1)]
  have "map ac_Code (codes db') = map ac_Code (codes db)"
    by (elim disjE exE conjE) (simp_all only: map_mark_codes)
  with assms(2) show ?thesis by (simp add: codes_unique_def)
qed

lemma exchange_spent:
  assumes "\<forall>r \<in> set (codes db). ac_Code r = rq_Code req \<longrightarrow> ac_IsUsed r"
  shows "fst (ExchangeCodeForToken L s uuid now req db) = Inl InvalidAuthorizationCode"
    and "snd (ExchangeCodeForToken L s uuid now req db) = db"
  using select_unused_code_spent [OF assms]
  by (auto simp: ExchangeCodeForToken_def ExchangeCodeForToken_fetch_def)

lemma exchange_spends:
  assumes x: "ExchangeCodeForToken L s uuid now req db = (res, db')"
    and u: "codes_unique db"
    and r: "res \<notin> Inl ` {InvalidAuthorizationCode, AuthorizationCodeExpired,
              ClientMismatch, RedirectURIMismatch, InvalidCodeVerifier}"
  shows "\<forall>r \<in> set (codes db'). ac_Code r = rq_Code req \<longrightarrow> ac_IsUsed r"
proof -
  from exchange_effect [OF x] r obtain row where
    sel: "select_unused_code db (rq_Code req) = Inr row"
    and c: "codes db' = map (mark (ac_ID row)) (codes db)" by blast
  from select_unused_code_Inr [OF sel] have "row \<in> set (codes db)" "ac_Code row = rq_Code req"
    by auto
  with mark_spent [of "codes db" row] u c show ?thesis by (simp add: codes_unique_def)
qed

lemma exchange_keeps_spent:
  assumes x: "ExchangeCodeForToken L s uuid now req db = (res, db')"
    and sp: "\<forall>r \<in> set (codes db). ac_Code r = c \<longrightarrow> ac_IsUsed r"
  shows "\<forall>r \<in> set (codes db'). ac_Code r = c \<longrightarrow> ac_IsUsed r"
proof -
  from exchange_effect [OF x]
  have "codes db' = codes db \<or> (\<exists>i. codes db' = map (mark i) (codes db))" by blast
  then show ?thesis
  proof
    assume "codes db' = codes db"
    with sp show ?thesis by simp
  next
    assume "\<exists>i. codes db' = map (mark i) (codes db)"
    then obtain i where "codes db' = map (mark i) (codes db)" ..
    with sp show ?thesis by (auto simp: mark_def)
  qed
qed

lemma exchanges_Cons:
  "fst (exchanges L s ((uuid, now, req) # qs) db) =
     fst (ExchangeCodeForToken L s uuid now req db)
       # fst (exchanges L s qs (snd (ExchangeCodeForToken L s uuid now req db)))"
  by (simp add: split_beta Let_def)

lemma exchanges_spent:
  assumes "\<forall>r \<in> set (codes db). ac_Code r = c \<longrightarrow> ac_IsUsed r"
    and "\<forall>q \<in> set qs. rq_Code (snd (snd q)) = c"
  shows "fst (exchanges L s qs db) = replicate (length qs) (Inl InvalidAuthorizationCode)"
  using assms
proof (induction qs arbitrary: db)
  case Nil
  then show ?case by simp
next
  case (Cons q qs)
  obtain uuid now req where q: "q = (uuid, now, req)" by (cases q) auto
  with Cons.prems have c: "rq_Code req = c" by simp
  from Cons.prems(1) c
  have sp: "\<forall>r \<in> set (codes db). ac_Code r = rq_Code req \<longrightarrow> ac_IsUsed r" by simp
  note x = exchange_spent [OF sp, of L s uuid now]
  from Cons.IH [of db] Cons.prems x show ?case
    by (simp add: q exchanges_Cons del: exchanges.simps)
qed

lemma exchanges_step:
  fixes L s uuid now req db
  defines "res \<equiv> fst (ExchangeCodeForToken L s uuid now req db)"
    and "db1 \<equiv> snd (ExchangeCodeForToken L s uuid now req db)"
  assumes u: "codes_unique db" and c: "rq_Code req = c"
    and rest: "\<forall>q \<in> set qs. rq_Code (snd (snd q)) = c"
  shows "codes_unique db1"
    and "\<not> isl res \<Longrightarrow>
      fst (exchanges L s qs db1) = replicate (length qs) (Inl InvalidAuthorizationCode)"
proof -
  have x: "ExchangeCodeForToken L s uuid now req db = (res, db1)"
    by (simp add: res_def db1_def)
  from exchange_codes_unique [OF x u] show "codes_unique db1" .
  assume ok: "\<not> isl res"
  then have "res \<notin> Inl ` {InvalidAuthorizationCode, AuthorizationCodeExpired,
              ClientMismatch, RedirectURIMismatch, InvalidCodeVerifier}" by auto
  from exchange_spends [OF x u this] c
  have "\<forall>r \<in> set (codes db1). ac_Code r = c \<longrightarrow> ac_IsUsed r" by simp
  from exchanges_spent [OF this rest]
  show "fst (exchanges L s qs db1) = replicate (length qs) (Inl InvalidAuthorizationCode)" .
qed

lemma exchanges_after_success:
  assumes "codes_unique db" "\<forall>q \<in> set qs. rq_Code (snd (snd q)) = c"
    and "fst (exchanges L s qs db) = pre @ Inr resp # post"
  shows "(\<forall>x \<in> set pre. isl x) \<and> post = replicate (length post) (Inl InvalidAuthorizationCode)"
  using assms
proof (induction qs arbitrary: db pre)
  case Nil
  then show ?case by simp
next
  case (Cons q qs)
  obtain uuid now req where q: "q = (uuid, now, req)" by (cases q) auto
  let ?res = "fst (ExchangeCodeForToken L s uuid now req db)"
  let ?db1 = "snd (ExchangeCodeForToken L s uuid now req db)"
  from Cons.prems(2) q have c: "rq_Code req = c"
    and rest: "\<forall>q \<in> set qs. rq_Code (snd (snd q)) = c" by simp_all
  note st = exchanges_step [OF Cons.prems(1) c rest, of L s uuid now]
  from Cons.prems(3) q
  have eq: "?res # fst (exchanges L s qs ?db1) = pre @ Inr resp # post"
    by (simp only: exchanges_Cons)
  show ?case
  proof (cases pre)
    case Nil
    with eq have "?res = Inr resp" "fst (exchanges L s qs ?db1) = post" by simp_all
    with st(2) have "post = replicate (length qs) (Inl InvalidAuthorizationCode)" by simp
    then have "post = replicate (length post) (Inl InvalidAuthorizationCode)" by simp
    with Nil show ?thesis by simp
  next
    case (Cons p pre')
    with eq have p: "?res = p" and tl: "fst (exchanges L s qs ?db1) = pre' @ Inr resp # post"
      by simp_all
    have "isl p"
    proof (rule ccontr)
      assume "\<not> isl p"
      with p st(2) have "fst (exchanges L s qs ?db1)
          = replicate (length qs) (Inl InvalidAuthorizationCode)" by simp
      with tl have "Inr resp \<in> set (replicate (length qs) (Inl InvalidAuthorizationCode))"
        by (metis in_set_conv_decomp)
      then show False by simp
    qed
    moreover from Cons.IH [OF st(1) rest tl]
    have "(\<forall>x \<in> set pre'. isl x)
        \<and> post = replicate (length post) (Inl InvalidAuthorizationCode)" .
    ultimately show ?thesis using Cons by simp
  qed
qed

lemma exchanges_at_most_one:
  assumes "codes_unique db" "\<forall>q \<in> set qs. rq_Code (snd (snd q)) = c"
  shows "length (filter (\<lambda>x. \<not> isl x) (fst (exchanges L s qs db))) \<le> 1"
  using assms
proof (induction qs arbitrary: db)
  case Nil
  then show ?case by simp
next
  case (Cons q qs)
  obtain uuid now req where q: "q = (uuid, now, req)" by (cases q) auto
  let ?res = "fst (ExchangeCodeForToken L s uuid now req db)"
  let ?db1 = "snd (ExchangeCodeForToken L s uuid now req db)"
  from Cons.prems(2) q have c: "rq_Code req = c"
    and rest: "\<forall>q \<in> set qs. rq_Code (snd (snd q)) = c" by simp_all
  note st = exchanges_step [OF Cons.prems(1) c rest, of L s uuid now]
  show ?case
  proof (cases "isl ?res")
    case True
    with Cons.IH [OF st(1) rest] show ?thesis by (simp add: q exchanges_Cons del: exchanges.simps)
  next
    case False
    with st(2) show ?thesis by (simp add: q exchanges_Cons del: exchanges.simps)
  qed
qed

lemma advance_twice:
  "advance L s uuid now (fst (advance L s uuid now (Start req) db))
       (snd (advance L s uuid now (Start req) db))
     = (Finished (fst (ExchangeCodeForToken L s uuid now req db)),
        snd (ExchangeCodeForToken L s uuid now req db))"
  by (simp add: advance_def ExchangeCodeForToken_def split: sum.splits prod.splits)

lemma codes_unique_db0: "codes_unique db0"
  by (simp add: codes_unique_def db0_def code1_def code2_def code3_def code4_def)

text \<open>
  Claim C1: the code is consumed by a single conditional update, so that of the
  exchanges presenting one code at the same time at most one succeeds and every other
  fails with \<^verbatim>\<open>CODE_ALREADY_USED\<close>.

  The code reads the unused row with a \<^verbatim>\<open>SELECT\<close> and marks it with a later,
  unconditional \<^verbatim>\<open>UPDATE\<close>. Two exchanges for \<open>code1\<close> are in flight; both read the
  row before either marks it, and both return tokens. Served one after the other, the
  second fails, with the error \<^verbatim>\<open>invalid authorization code\<close>, which is also the
  answer to a code that was never issued.
\<close>

theorem C1_two_exchanges_in_flight_succeed:
  "map succeeded (fst (schedule L0 svc0 thread_ids (10 * Second) [0, 1, 0, 1]
       ([Start req1, Start req1], db0))) = [True, True]
   \<and> fst (ExchangeCodeForToken L0 svc0 (ids ''b'') (20 * Second) req1
        (snd (ExchangeCodeForToken L0 svc0 (ids ''a'') (10 * Second) req1 db0)))
       = Inl InvalidAuthorizationCode
   \<and> fst (ExchangeCodeForToken L0 svc0 (ids ''b'') (20 * Second)
        (exchange_request ''never-issued'' ''https://good.example/cb'' ''cid-1'' ''s3cr3t'' [])
        db0)
       = Inl InvalidAuthorizationCode"
  by (simp add: advance_def succeeded_def ex_defs op_defs)

text \<open>
  What the lookup of the unused row does achieve: of the exchanges that present one
  code and are served one after another, at most one succeeds, and every exchange
  served after the successful one fails with \<^verbatim>\<open>invalid authorization code\<close>. The
  codes of the store are unique, as the table's constraint has it.
\<close>

lemma exchanges_in_sequence:
  assumes "codes_unique db" "\<forall>q \<in> set qs. rq_Code (snd (snd q)) = c"
  shows "length (filter (\<lambda>x. \<not> isl x) (fst (exchanges L s qs db))) \<le> 1
    \<and> (\<forall>pre resp post. fst (exchanges L s qs db) = pre @ Inr resp # post \<longrightarrow>
          (\<forall>x \<in> set pre. isl x)
          \<and> post = replicate (length post) (Inl InvalidAuthorizationCode))"
  using exchanges_at_most_one [OF assms] exchanges_after_success [OF assms] by blast

lemma exchanges_in_sequence_example:
  "codes_unique db0
   \<and> length (filter (\<lambda>x. \<not> isl x) (fst (exchanges L0 svc0 two_requests db0))) \<le> 1
   \<and> map isl (fst (exchanges L0 svc0 two_requests db0)) = [False, True]
   \<and> fst (exchanges L0 svc0 two_requests db0) ! 1 = Inl InvalidAuthorizationCode"
proof -
  have u: "codes_unique db0" by (rule codes_unique_db0)
  have c: "\<forall>q \<in> set two_requests. rq_Code (snd (snd q)) = ''code-1''"
    by (simp add: two_requests_def req1_def exchange_request_def)
  note t = exchanges_in_sequence [OF u c, of L0 svc0]
  then have one: "length (filter (\<lambda>x. \<not> isl x) (fst (exchanges L0 svc0 two_requests db0))) \<le> 1"
    by (rule conjunct1)
  have first: "\<not> isl (fst (ExchangeCodeForToken L0 svc0 (ids ''a'') (10 * Second) req1 db0))"
    by (simp add: ex_defs op_defs)
  then obtain resp where
    r: "fst (ExchangeCodeForToken L0 svc0 (ids ''a'') (10 * Second) req1 db0) = Inr resp"
    by (cases "fst (ExchangeCodeForToken L0 svc0 (ids ''a'') (10 * Second) req1 db0)") auto
  obtain x where x: "fst (ExchangeCodeForToken L0 svc0 (ids ''b'') (20 * Second) req1
      (snd (ExchangeCodeForToken L0 svc0 (ids ''a'') (10 * Second) req1 db0))) = x" by simp
  from r x have ex: "fst (exchanges L0 svc0 two_requests db0) = [] @ Inr resp # [x]"
    by (simp add: two_requests_def split_beta)
  from t [THEN conjunct2, rule_format, OF ex]
  have "[x] = replicate (length [x]) (Inl InvalidAuthorizationCode)" by (rule conjunct2)
  then have "x = Inl InvalidAuthorizationCode" by simp
  with ex u one show ?thesis by simp
qed

text \<open>
  Claim C10: the code is marked used before the client is looked up, so an exchange
  that fails at the client lookup or at the secret check returns an error and leaves the
  code used; the store has changed, and no later exchange with that code succeeds,
  whatever secret it presents.
\<close>

theorem C10_failed_exchange_spends_code:
  assumes x: "ExchangeCodeForToken L s uuid now req db = (Inl e, db')"
    and e: "e = InvalidClientSecret \<or> e = StoreError ErrNoRows"
    and u: "codes_unique db"
  shows "db' \<noteq> db
    \<and> (\<exists>r \<in> set (oauth_authorization_codes db). ac_Code r = rq_Code req \<and> \<not> ac_IsUsed r
          \<and> r\<lparr>ac_IsUsed := True\<rparr> \<in> set (oauth_authorization_codes db'))
    \<and> (\<forall>L' s' uuid' now' req'. rq_Code req' = rq_Code req \<longrightarrow>
          ExchangeCodeForToken L' s' uuid' now' req' db' = (Inl InvalidAuthorizationCode, db'))"
proof -
  from e have r: "Inl e \<notin> Inl ` {InvalidAuthorizationCode, AuthorizationCodeExpired,
              ClientMismatch, RedirectURIMismatch, InvalidCodeVerifier}" by auto
  with exchange_effect [OF x] obtain row where
    sel: "select_unused_code db (rq_Code req) = Inr row"
    and c: "codes db' = map (mark (ac_ID row)) (codes db)" by blast
  from select_unused_code_Inr [OF sel]
  have row: "row \<in> set (codes db)" "ac_Code row = rq_Code req" "\<not> ac_IsUsed row" by auto
  then have m: "mark (ac_ID row) row = row\<lparr>ac_IsUsed := True\<rparr>" by (simp add: mark_def)
  from row(1) have "mark (ac_ID row) row \<in> set (map (mark (ac_ID row)) (codes db))" by simp
  with m c have in': "row\<lparr>ac_IsUsed := True\<rparr> \<in> set (codes db')" by simp
  have neq: "db' \<noteq> db"
  proof
    assume "db' = db"
    with c have "map (mark (ac_ID row)) (codes db) = map id (codes db)" by simp
    then have "mark (ac_ID row) row = id row" using row(1) by (simp only: map_eq_conv)
    with m have "row\<lparr>ac_IsUsed := True\<rparr> = row" by simp
    then have "ac_IsUsed (row\<lparr>ac_IsUsed := True\<rparr>) = ac_IsUsed row" by (rule arg_cong)
    with row(3) show False by simp
  qed
  from exchange_spends [OF x u r]
  have sp: "\<forall>r \<in> set (codes db'). ac_Code r = rq_Code req \<longrightarrow> ac_IsUsed r" .
  have later: "ExchangeCodeForToken L' s' uuid' now' req' db' = (Inl InvalidAuthorizationCode, db')"
    if "rq_Code req' = rq_Code req" for L' s' uuid' now' req'
  proof -
    from sp that have "\<forall>r \<in> set (codes db'). ac_Code r = rq_Code req' \<longrightarrow> ac_IsUsed r" by simp
    from exchange_spent [OF this, of L' s' uuid' now'] show ?thesis
      by (simp add: prod_eq_iff)
  qed
  from neq row in' later show ?thesis by blast
qed

theorem C10_failed_exchange_spends_code_witness:
  "codes_unique db0
   \<and> ExchangeCodeForToken L0 svc0 (ids ''a'') (10 * Second) req_wrong_secret db0
       = (Inl InvalidClientSecret, db0_code1_used)
   \<and> db0_code1_used \<noteq> db0
   \<and> ExchangeCodeForToken L0 svc0 (ids ''b'') (20 * Second) req1 db0_code1_used
       = (Inl InvalidAuthorizationCode, db0_code1_used)"
proof -
  have u: "codes_unique db0" by (rule codes_unique_db0)
  have x: "ExchangeCodeForToken L0 svc0 (ids ''a'') (10 * Second) req_wrong_secret db0
       = (Inl InvalidClientSecret, db0_code1_used)"
    by (simp add: ex_defs op_defs req_wrong_secret_def db0_code1_used_def)
  have c: "rq_Code req1 = rq_Code req_wrong_secret"
    by (simp add: req1_def req_wrong_secret_def exchange_request_def)
  note t = C10_failed_exchange_spends_code [OF x _ u, simplified]
  from t have n: "db0_code1_used \<noteq> db0" by (rule conjunct1)
  from t [THEN conjunct2, THEN conjunct2, rule_format, OF c]
  have "ExchangeCodeForToken L0 svc0 (ids ''b'') (20 * Second) req1 db0_code1_used
       = (Inl InvalidAuthorizationCode, db0_code1_used)" .
  with u x n show ?thesis by simp
qed

subsection \<open>Grant types\<close>

text \<open>
  Claim C6: in every grant flow of the token endpoint the request fails with
  \<^verbatim>\<open>GRANT_TYPE_NOT_ALLOWED\<close> when the requested grant type is not among the client's
  registered grant types.

  Only the client-credentials flow looks at the registered grant types. \<open>client2\<close> is
  registered for \<^verbatim>\<open>client_credentials\<close> alone, yet the token endpoint exchanges an
  authorization code for it and refreshes a token for it, each time returning a new pair
  of tokens. \<open>client1\<close>, which is not registered for \<^verbatim>\<open>client_credentials\<close>, is
  refused that grant with \<^verbatim>\<open>grant type not allowed\<close>.
\<close>

theorem C6_grant_type_checked_in_one_flow_only:
  "cl_GrantTypes client2 = ''client_credentials''
   \<and> fst (token L0 svc0 (ids ''a'') (10 * Second) req2 redis0 db0)
       = Inr (issued ''a'' (10 * Second) ''cid-2'' [''read''])
   \<and> fst (token L0 svc0 (ids ''b'') (10 * Second) (refresh_request ''cid-2'' refresh2)
          redis0 db0)
       = Inr (issued ''b'' (10 * Second) ''cid-2'' [])
   \<and> cl_GrantTypes client1 = ''authorization_code refresh_token''
   \<and> fst (token L0 svc0 (ids ''c'') (10 * Second)
          (client_credentials_request ''cid-1'' ''s3cr3t'') redis0 db0)
       = Inl GrantTypeNotAllowed"
proof -
  have a: "fst (token L0 svc0 (ids ''a'') (10 * Second) req2 redis0 db0)
       = Inr (issued ''a'' (10 * Second) ''cid-2'' [''read''])"
    by (simp add: token_def bind_TokenRequest_def req2_def issued_def ex_defs op_defs
        Seconds_int_def)
  have v: "ValidateToken (jwt_validate L0) (jwtUtil svc0) (10 * Second) refresh2
      = Inr \<lparr>jc_UserID = ''u-1'', jc_ClientID = ''cid-2'', jc_Role = [], jc_Scopes = [],
         jc_TokenID = ''t-2'', jc_Issuer = ''gogin'', jc_Subject = ''u-1'',
         jc_ExpiresAt = Some (2592000 * Second), jc_IssuedAt = Some 0,
         jc_NotBefore = Some 0, jc_ID = ''t-2''\<rparr>"
    by (simp add: refresh2_def GenerateRefreshToken_def ValidateToken_JWS
        L0_def svc0_def NewNumericDate_def Validator_Validate_def Second_def)
  have rq: "rq_GrantType (refresh_request ''cid-2'' refresh2) = ''refresh_token''"
    "rq_ClientID (refresh_request ''cid-2'' refresh2) = ''cid-2''"
    "rq_RefreshToken (refresh_request ''cid-2'' refresh2) = refresh2"
    by (simp_all add: refresh_request_def)
  have rg: "RefreshTokenGrant L0 svc0 (ids ''b'') (10 * Second)
        (refresh_request ''cid-2'' refresh2) redis0 db0
      = generateTokens svc0 (ids ''b'') (10 * Second) ''u-1'' ''cid-2'' [] db0"
    by (simp add: RefreshTokenGrant_def rq v IsTokenRevoked_def RedisClient_Exists_def
        redis0_def)
  have g: "fst (generateTokens svc0 (ids ''b'') (10 * Second) ''u-1'' ''cid-2'' [] db0)
      = Inr (issued ''b'' (10 * Second) ''cid-2'' [])"
    by (simp add: issued_def ex_defs generateTokens_def insert_token_def
        GenerateAccessToken_def GenerateRefreshToken_def NewNumericDate_def Let_def
        Seconds_int_def)
  have b: "fst (token L0 svc0 (ids ''b'') (10 * Second) (refresh_request ''cid-2'' refresh2)
          redis0 db0)
       = Inr (issued ''b'' (10 * Second) ''cid-2'' [])"
    by (simp add: token_def bind_TokenRequest_def rq rg g)
  have c: "fst (token L0 svc0 (ids ''c'') (10 * Second)
          (client_credentials_request ''cid-1'' ''s3cr3t'') redis0 db0)
       = Inl GrantTypeNotAllowed"
    by (simp add: token_def bind_TokenRequest_def client_credentials_request_def
        ClientCredentialsGrant_def GetClientByClientID_def ex_defs)
  have g: "cl_GrantTypes client2 = ''client_credentials''"
    "cl_GrantTypes client1 = ''authorization_code refresh_token''"
    by (simp_all add: client1_def client2_def)
  from a b c g show ?thesis by (intro conjI)
qed

subsection \<open>PKCE\<close>




end
